theory Spec2Isabelle
  imports
    Complex_Main
    "HOL-Library.Char_ord"
    "HOL-Library.List_Lexorder"
    "HOL-Library.Multiset"
begin

section \<open>Python values shared by the three modules\<close>

text \<open>
  The client is Python. Strings and byte strings are \<open>string\<close> (a list of 8-bit
  characters); with \<open>Char_ord\<close> and \<open>List_Lexorder\<close> the order \<open><\<close> on
  \<open>string\<close> is the lexicographic order by character code, which is how Python compares
  \<open>str\<close> values. A raised exception is a value of \<open>error\<close>; a function
  that can raise returns \<open>error + 'a\<close> with \<open>Inl\<close> for the exception.
\<close>

datatype error =
    ValueError string
  | OSError string
  | AttributeError string
  | AssertionError string
  | WandbError string
  | BinasciiError

type_synonym bytes = string

text \<open>
  A \<open>dict\<close> is an association list in insertion order with pairwise distinct keys.
  \<open>d[k] = v\<close> replaces the value in place when the key is present and appends the
  pair otherwise.
\<close>

type_synonym ('k, 'v) pydict = "('k \<times> 'v) list"

fun dict_set :: "'k \<Rightarrow> 'v \<Rightarrow> ('k, 'v) pydict \<Rightarrow> ('k, 'v) pydict" where
  "dict_set k v [] = [(k, v)]"
| "dict_set k v ((k', v') # d) =
     (if k = k' then (k, v) # d else (k', v') # dict_set k v d)"

definition dict_get :: "('k, 'v) pydict \<Rightarrow> 'k \<Rightarrow> 'v option" where
  "dict_get d k = map_of d k"

text \<open>\<open>d.update(other)\<close>: assigns the items of \<open>other\<close> in their order.\<close>

definition dict_update :: "('k, 'v) pydict \<Rightarrow> ('k, 'v) pydict \<Rightarrow> ('k, 'v) pydict" where
  "dict_update d other = foldl (\<lambda>acc kv. dict_set (fst kv) (snd kv) acc) d other"

text \<open>\<open>name or default\<close> on an optional string: \<open>None\<close> and \<open>""\<close> are falsy.\<close>

definition str_or :: "string option \<Rightarrow> string \<Rightarrow> string" where
  "str_or name dflt = (case name of None \<Rightarrow> dflt | Some n \<Rightarrow> if n = [] then dflt else n)"

subsection \<open>\<open>os.path\<close> on POSIX\<close>

text \<open>
  \<open>posixpath.join\<close>: a component that starts with \<open>/\<close> discards everything before
  it; otherwise a separator is inserted unless the path so far is empty or already ends
  with one.
\<close>

definition join2 :: "string \<Rightarrow> string \<Rightarrow> string" where
  "join2 p b =
     (if take 1 b = ''/'' then b
      else if p = [] \<or> last p = CHR ''/'' then p @ b
      else p @ ''/'' @ b)"

definition path_join :: "string \<Rightarrow> string list \<Rightarrow> string" where
  "path_join a ps = foldl join2 a ps"

text \<open>\<open>posixpath.basename\<close>: everything after the last \<open>/\<close>.\<close>

definition basename :: "string \<Rightarrow> string" where
  "basename p = rev (takeWhile (\<lambda>c. c \<noteq> CHR ''/'') (rev p))"

text \<open>
  \<open>posixpath.dirname\<close>: everything up to and including the last \<open>/\<close>, with the
  trailing separators stripped unless the head consists of separators only.
\<close>

definition dirname :: "string \<Rightarrow> string" where
  "dirname p =
     (let head = rev (dropWhile (\<lambda>c. c \<noteq> CHR ''/'') (rev p))
      in if head \<noteq> [] \<and> (\<exists>c \<in> set head. c \<noteq> CHR ''/'')
         then rev (dropWhile (\<lambda>c. c = CHR ''/'') (rev head))
         else head)"

section \<open>Artifact manifest (\<open>wandb/sdk/wandb_artifacts.py\<close>)\<close>

subsection \<open>Manifest entries\<close>

text \<open>
  \<open>ArtifactManifestEntry\<close>. The constructor raises \<open>AssertionError\<close> when a
  \<open>local_path\<close> is given without a \<open>size\<close>, and stores \<open>extra or {}\<close>.
\<close>

record entry =
  e_path :: string
  e_ref :: "string option"
  e_digest :: string
  e_birth_artifact_id :: "string option"
  e_size :: "int option"
  e_extra :: "(string, string) pydict"
  e_local_path :: "string option"

definition ArtifactManifestEntry ::
  "string \<Rightarrow> string option \<Rightarrow> string \<Rightarrow> string option \<Rightarrow> int option \<Rightarrow>
   (string, string) pydict option \<Rightarrow> string option \<Rightarrow> error + entry" where
  "ArtifactManifestEntry p r dg birth sz ex lp =
     (if lp \<noteq> None \<and> sz = None
      then Inl (AssertionError ''programming error, size required when local_path specified'')
      else Inr \<lparr> e_path = p, e_ref = r, e_digest = dg, e_birth_artifact_id = birth,
                 e_size = sz, e_extra = (case ex of None \<Rightarrow> [] | Some x \<Rightarrow> x),
                 e_local_path = lp \<rparr>)"

text \<open>An entry built with the keyword defaults: only path, ref and digest are given.\<close>

definition reference_entry :: "string \<Rightarrow> string \<Rightarrow> string \<Rightarrow> entry" where
  "reference_entry p r dg =
     \<lparr> e_path = p, e_ref = Some r, e_digest = dg, e_birth_artifact_id = None,
       e_size = None, e_extra = [], e_local_path = None \<rparr>"

subsection \<open>The manifest and its digest\<close>

record manifest =
  entries :: "(string, entry) pydict"

definition empty_manifest :: manifest where
  "empty_manifest = \<lparr> entries = [] \<rparr>"

text \<open>
  Modelled from the spec: \<open>ArtifactManifest.add_entry\<close> lives in
  \<open>wandb/interface/artifacts.py\<close>, which is not among the sources. The specification
  describes the manifest as an ordered mapping from path to entry that owns its
  entries, so adding an entry stores it under its path.
\<close>

definition add_entry :: "manifest \<Rightarrow> entry \<Rightarrow> manifest" where
  "add_entry m e = m\<lparr> entries := dict_set (e_path e) e (entries m) \<rparr>"

text \<open>
  \<open>ArtifactManifestV1.digest\<close>. The hasher is fed the header line and then one line
  per item of \<open>sorted(self.entries.items(), key=lambda kv: kv[0])\<close>; the state of the
  hasher is the byte string it has been fed so far, and \<open>hexdigest\<close> applies MD5
  (the parameter \<open>md5_hexdigest\<close>, from \<open>hashlib\<close>) to it. Python's
  \<open>sorted\<close> is a stable sort by key, as \<open>sort_key\<close> is.
\<close>

definition newline :: string where
  "newline = [CHR 0x0A]"

definition manifest_header :: string where
  "manifest_header = ''wandb-artifact-manifest-v1'' @ newline"

definition manifest_line :: "string \<Rightarrow> string \<Rightarrow> string" where
  "manifest_line name dg = name @ '':'' @ dg @ newline"

definition hasher_update :: "bytes \<Rightarrow> bytes \<Rightarrow> bytes" where
  "hasher_update h b = h @ b"

definition digest :: "(bytes \<Rightarrow> string) \<Rightarrow> manifest \<Rightarrow> string" where
  "digest md5_hexdigest m =
     md5_hexdigest
       (foldl (\<lambda>h kv. hasher_update h (manifest_line (fst kv) (e_digest (snd kv))))
          (hasher_update [] manifest_header)
          (sort_key fst (entries m)))"


subsection \<open>String and list operations of Python\<close>

text \<open>\<open>s.split(sep)\<close> for a one-character separator: always at least one component.\<close>

fun split_on :: "char \<Rightarrow> string \<Rightarrow> string list" where
  "split_on sep [] = [[]]"
| "split_on sep (c # cs) =
     (if c = sep then [] # split_on sep cs
      else (case split_on sep cs of
              [] \<Rightarrow> [[c]]
            | w # ws \<Rightarrow> (c # w) # ws))"

definition endswith :: "string \<Rightarrow> string \<Rightarrow> bool" where
  "endswith s suffix =
     (length suffix \<le> length s \<and> drop (length s - length suffix) s = suffix)"

definition startswith :: "string \<Rightarrow> string \<Rightarrow> bool" where
  "startswith s prefix = (take (length prefix) s = prefix)"

text \<open>\<open>xs.index(x)\<close>: the first position of \<open>x\<close>; \<open>None\<close> stands for \<open>ValueError\<close>.\<close>

fun list_index :: "'a list \<Rightarrow> 'a \<Rightarrow> nat option" where
  "list_index [] x = None"
| "list_index (y # ys) x = (if y = x then Some 0 else map_option Suc (list_index ys x))"

text \<open>\<open>xs[i]\<close> for \<open>i \<ge> 0\<close>: \<open>None\<close> stands for \<open>IndexError\<close>.\<close>

definition list_get :: "'a list \<Rightarrow> nat \<Rightarrow> 'a option" where
  "list_get xs i = (if i < length xs then Some (xs ! i) else None)"


section \<open>Artifacts: cache, storage handlers and the artifact builder\<close>

subsection \<open>Library functions taken as parameters\<close>

text \<open>
  The module calls into \<open>hashlib\<close>, \<open>base64\<close>, \<open>urllib.parse\<close> and
  \<open>os.path.relpath\<close>. They are parameters of the model, collected in one record:
  \<open>md5_hexdigest\<close> is \<open>hashlib.md5(b).hexdigest()\<close>, \<open>md5_b64\<close> the base64 text
  of the MD5 digest, \<open>b64decode\<close> is \<open>base64.b64decode\<close> (\<open>None\<close> when it
  raises), \<open>urlparse\<close> gives the three components of a URL that the module reads.
\<close>

record url =
  url_scheme :: string
  url_netloc :: string
  url_path :: string

record pylib =
  md5_hexdigest :: "bytes \<Rightarrow> string"
  md5_b64 :: "bytes \<Rightarrow> string"
  b64decode :: "string \<Rightarrow> bytes option"
  urlparse :: "string \<Rightarrow> url"
  relpath :: "string \<Rightarrow> string \<Rightarrow> string"

text \<open>
  Instances used to evaluate examples. \<open>urlparse_plain\<close> splits
  \<open>scheme://netloc/path\<close> the way \<open>urlparse\<close> does for a URL without query,
  fragment or parameters; \<open>relpath_under\<close> is \<open>relpath\<close> for a path below
  \<open>start\<close>.
\<close>

definition scheme_chars :: "char set" where
  "scheme_chars =
     set ''abcdefghijklmnopqrstuvwxyzABCDEFGHIJKLMNOPQRSTUVWXYZ0123456789+-.''"

definition lower_char :: "char \<Rightarrow> char" where
  "lower_char c =
     (case list_index ''ABCDEFGHIJKLMNOPQRSTUVWXYZ'' c of
        None \<Rightarrow> c
      | Some i \<Rightarrow> ''abcdefghijklmnopqrstuvwxyz'' ! i)"

definition urlparse_plain :: "string \<Rightarrow> url" where
  "urlparse_plain u =
     (let before = takeWhile (\<lambda>c. c \<noteq> CHR '':'') u;
          has_scheme = (before \<noteq> [] \<and> length before < length u \<and> set before \<subseteq> scheme_chars);
          sch = (if has_scheme then map lower_char before else []);
          rest = (if has_scheme then drop (length before + 1) u else u)
      in if take 2 rest = ''//''
         then \<lparr> url_scheme = sch,
                url_netloc = takeWhile (\<lambda>c. c \<noteq> CHR ''/'') (drop 2 rest),
                url_path = dropWhile (\<lambda>c. c \<noteq> CHR ''/'') (drop 2 rest) \<rparr>
         else \<lparr> url_scheme = sch, url_netloc = [], url_path = rest \<rparr>)"

definition relpath_under :: "string \<Rightarrow> string \<Rightarrow> string" where
  "relpath_under p start =
     (if startswith p (start @ ''/'') then drop (length start + 1) p else p)"

definition example_lib :: pylib where
  "example_lib =
     \<lparr> md5_hexdigest = (\<lambda>b. ''md5hex('' @ b @ '')''),
       md5_b64 = (\<lambda>b. ''md5b64('' @ b @ '')''),
       b64decode = (\<lambda>s. if s = ''q83v'' then Some [CHR 0xAB, CHR 0xCD, CHR 0xEF] else None),
       urlparse = urlparse_plain,
       relpath = relpath_under \<rparr>"

subsection \<open>The file system and the installed packages\<close>

text \<open>
  Regular files are a map from absolute path to content, directories a set of
  absolute paths; a relative path is resolved against the working directory.
  \<open>fs_walk followlinks top\<close> is what \<open>os.walk\<close> yields: one triple of directory
  path, sub-directory names and file names per directory below \<open>top\<close>.
  \<open>fs_init_client package\<close> is the outcome of importing an optional package with
  \<open>util.get_module\<close> and creating its client: \<open>None\<close> when both succeed, the
  exception raised otherwise.
  \<open>fs_remote scheme uri name max_objects\<close> is the outcome of the part of a
  checksumming \<open>store_path\<close> that queries S3, GCS or an HTTP server.
\<close>

record fs_world =
  fs_cwd :: string
  fs_files :: "string \<Rightarrow> bytes option"
  fs_dirs :: "string set"
  fs_dir_size :: "string \<Rightarrow> nat"
  fs_walk :: "bool \<Rightarrow> string \<Rightarrow> (string \<times> string list \<times> string list) list"
  fs_init_client :: "string \<Rightarrow> error option"
  fs_remote :: "string \<Rightarrow> string \<Rightarrow> string option \<Rightarrow> int \<Rightarrow> error + entry list"

definition abspath :: "fs_world \<Rightarrow> string \<Rightarrow> string" where
  "abspath w p = join2 (fs_cwd w) p"

definition isfile :: "fs_world \<Rightarrow> string \<Rightarrow> bool" where
  "isfile w p = (fs_files w (abspath w p) \<noteq> None)"

definition isdir :: "fs_world \<Rightarrow> string \<Rightarrow> bool" where
  "isdir w p = (abspath w p \<in> fs_dirs w)"

definition path_exists :: "fs_world \<Rightarrow> string \<Rightarrow> bool" where
  "path_exists w p = (isfile w p \<or> isdir w p)"

definition getsize :: "fs_world \<Rightarrow> string \<Rightarrow> error + nat" where
  "getsize w p =
     (case fs_files w (abspath w p) of
        Some content \<Rightarrow> Inr (length content)
      | None \<Rightarrow>
          if isdir w p then Inr (fs_dir_size w (abspath w p))
          else Inl (OSError (''No such file or directory: '' @ p)))"

text \<open>
  Modelled from the spec: \<open>md5_file_b64\<close> lives in \<open>wandb/interface/artifacts.py\<close>,
  which is not among the sources; the specification says that adding a file computes
  its MD5, and the digest of an embedded file is the base64 text of that MD5.
\<close>

definition md5_file_b64 :: "pylib \<Rightarrow> fs_world \<Rightarrow> string \<Rightarrow> error + string" where
  "md5_file_b64 L w p =
     (case fs_files w (abspath w p) of
        Some content \<Rightarrow> Inr (md5_b64 L content)
      | None \<Rightarrow> Inl (OSError (''No such file or directory: '' @ p)))"

text \<open>
  Modelled from the spec: \<open>util.mkdir_exists_ok\<close> lives in \<open>wandb/util.py\<close>, which
  is not among the sources; the specification says that the cache lookup ensures that
  the parent directory exists.
\<close>

definition mkdir_exists_ok :: "fs_world \<Rightarrow> string \<Rightarrow> fs_world" where
  "mkdir_exists_ok w p = w\<lparr> fs_dirs := insert (abspath w p) (fs_dirs w) \<rparr>"

text \<open>\<open>shutil.copyfile(src, dst)\<close>.\<close>

definition copyfile :: "fs_world \<Rightarrow> string \<Rightarrow> string \<Rightarrow> error + fs_world" where
  "copyfile w src dst =
     (case fs_files w (abspath w src) of
        None \<Rightarrow> Inl (OSError (''No such file or directory: '' @ src))
      | Some content \<Rightarrow> Inr (w\<lparr> fs_files := (fs_files w)(abspath w dst \<mapsto> content) \<rparr>))"

text \<open>\<open>open(path, mode)\<close>, as far as it changes the file system.\<close>

definition py_open :: "fs_world \<Rightarrow> string \<Rightarrow> string \<Rightarrow> error + fs_world" where
  "py_open w p mode =
     (if CHR ''w'' \<in> set mode then Inr (w\<lparr> fs_files := (fs_files w)(abspath w p \<mapsto> []) \<rparr>)
      else if CHR ''x'' \<in> set mode then
        (if path_exists w p then Inl (OSError (''File exists: '' @ p))
         else Inr (w\<lparr> fs_files := (fs_files w)(abspath w p \<mapsto> []) \<rparr>))
      else if CHR ''a'' \<in> set mode then
        (if isfile w p then Inr w
         else Inr (w\<lparr> fs_files := (fs_files w)(abspath w p \<mapsto> []) \<rparr>))
      else if isfile w p then Inr w
      else Inl (OSError (''No such file or directory: '' @ p)))"

subsection \<open>\<open>ArtifactsCache\<close>\<close>

record artifacts_cache =
  cache_dir :: string

text \<open>
  Modelled from the spec: \<open>util.bytes_to_hex\<close> lives in \<open>wandb/util.py\<close>, which is
  not among the sources; the specification says that the digest is decoded to hex.
  Every byte becomes two lower-case hexadecimal digits.
\<close>

definition hex_digit :: "nat \<Rightarrow> char" where
  "hex_digit n = ''0123456789abcdef'' ! (n mod 16)"

definition bytes_to_hex :: "bytes \<Rightarrow> string" where
  "bytes_to_hex bs =
     concat (map (\<lambda>c. [hex_digit (of_char c div 16), hex_digit (of_char c)]) bs)"

text \<open>\<open>os.path.getsize(path) == size\<close>, where \<open>size\<close> may be \<open>None\<close>.\<close>

definition size_is :: "fs_world \<Rightarrow> string \<Rightarrow> int option \<Rightarrow> bool" where
  "size_is w p sz = (case getsize w p of Inl _ \<Rightarrow> False | Inr n \<Rightarrow> sz = Some (int n))"

definition check_md5_obj_path ::
  "pylib \<Rightarrow> artifacts_cache \<Rightarrow> fs_world \<Rightarrow> string \<Rightarrow> int option \<Rightarrow>
   error + ((string \<times> bool) \<times> fs_world)" where
  "check_md5_obj_path L c w b64_md5 sz =
     (case b64decode L b64_md5 of
        None \<Rightarrow> Inl BinasciiError
      | Some raw \<Rightarrow>
          (let hex_md5 = bytes_to_hex raw;
               p = path_join (cache_dir c) [''obj'', ''md5'', take 2 hex_md5, drop 2 hex_md5]
           in if isfile w p \<and> size_is w p sz then Inr ((p, True), w)
              else Inr ((p, False), mkdir_exists_ok w (dirname p))))"

definition check_etag_obj_path ::
  "artifacts_cache \<Rightarrow> fs_world \<Rightarrow> string \<Rightarrow> int option \<Rightarrow> (string \<times> bool) \<times> fs_world" where
  "check_etag_obj_path c w etag sz =
     (let p = path_join (cache_dir c) [''obj'', ''etag'', take 2 etag, drop 2 etag]
      in if isfile w p \<and> size_is w p sz then ((p, True), w)
         else ((p, False), mkdir_exists_ok w (dirname p)))"

subsection \<open>Storage handlers\<close>

definition DEFAULT_MAX_OBJECTS :: int where
  "DEFAULT_MAX_OBJECTS = 10000"

text \<open>\<open>max_objects or DEFAULT_MAX_OBJECTS\<close>: \<open>None\<close> and \<open>0\<close> are falsy.\<close>

definition max_objects_or_default :: "int option \<Rightarrow> int" where
  "max_objects_or_default m =
     (case m of None \<Rightarrow> DEFAULT_MAX_OBJECTS | Some n \<Rightarrow> if n = 0 then DEFAULT_MAX_OBJECTS else n)"

text \<open>Decimal text of a number, for the \<open>%i\<close> of an error message.\<close>

fun str_of_nat :: "nat \<Rightarrow> string" where
  "str_of_nat n =
     (if n < 10 then [''0123456789'' ! n]
      else str_of_nat (n div 10) @ [''0123456789'' ! (n mod 10)])"

declare str_of_nat.simps [simp del]

definition str_of_int :: "int \<Rightarrow> string" where
  "str_of_int i = (if i < 0 then ''-'' @ str_of_nat (nat (- i)) else str_of_nat (nat i))"

definition exceeded_objects :: "int \<Rightarrow> error" where
  "exceeded_objects max_objects =
     ValueError (''Exceeded '' @ str_of_int max_objects @
                 '' objects tracked, pass max_objects to add_reference'')"

text \<open>
  The handlers. \<open>S3Handler\<close> and \<open>GCSHandler\<close> remember whether their client has
  been created (\<open>_s3\<close>, \<open>_client\<close> is not \<open>None\<close>).
\<close>

datatype handler =
    S3Handler string bool
  | GCSHandler string bool
  | HTTPHandler string
  | LocalFileHandler string
  | TrackingHandler "string option"

fun handler_scheme :: "handler \<Rightarrow> string option" where
  "handler_scheme (S3Handler s _) = Some s"
| "handler_scheme (GCSHandler s _) = Some s"
| "handler_scheme (HTTPHandler s) = Some s"
| "handler_scheme (LocalFileHandler s) = Some s"
| "handler_scheme (TrackingHandler s) = s"

text \<open>
  \<open>init_boto\<close> and \<open>init_gcs\<close>: nothing to do when the client exists; otherwise
  the package is imported (\<open>util.get_module(name, required=...)\<close> raises when it
  cannot be) and the client is created. The result says whether the handler holds a
  client afterwards.
\<close>

definition init_boto :: "fs_world \<Rightarrow> bool \<Rightarrow> error + bool" where
  "init_boto w initialised =
     (if initialised then Inr True
      else (case fs_init_client w ''boto3'' of None \<Rightarrow> Inr True | Some e \<Rightarrow> Inl e))"

definition init_gcs :: "fs_world \<Rightarrow> bool \<Rightarrow> error + bool" where
  "init_gcs w initialised =
     (if initialised then Inr True
      else (case fs_init_client w ''google.cloud.storage'' of
              None \<Rightarrow> Inr True | Some e \<Rightarrow> Inl e))"



text \<open>\<open>_parse_uri\<close>: the bucket and the key (the path without its leading slash).\<close>

definition parse_uri :: "pylib \<Rightarrow> string \<Rightarrow> string \<times> string" where
  "parse_uri L uri = (url_netloc (urlparse L uri), drop 1 (url_path (urlparse L uri)))"

text \<open>
  The loop of \<open>LocalFileHandler.store_path\<close> over the file names that \<open>os.walk\<close>
  yields. \<open>sub_path\<close> is the bare file name: size and digest are read from
  \<open>sub_path\<close> itself, the counter \<open>i\<close> is compared with \<open>>=\<close>.
\<close>

fun store_dir_files ::
  "pylib \<Rightarrow> fs_world \<Rightarrow> string \<Rightarrow> int \<Rightarrow> int \<Rightarrow> string list \<Rightarrow> error + entry list" where
  "store_dir_files L w path max_objects i [] = Inr []"
| "store_dir_files L w path max_objects i (sub_path # rest) =
     (if max_objects \<le> i + 1 then Inl (exceeded_objects max_objects)
      else
        (case getsize w sub_path of
           Inl e \<Rightarrow> Inl e
         | Inr sz \<Rightarrow>
             (case md5_file_b64 L w sub_path of
                Inl e \<Rightarrow> Inl e
              | Inr dg \<Rightarrow>
                  (case ArtifactManifestEntry (basename sub_path) (Some (join2 path sub_path))
                          dg None (Some (int sz)) None None of
                     Inl e \<Rightarrow> Inl e
                   | Inr entry \<Rightarrow>
                       (case store_dir_files L w path max_objects (i + 1) rest of
                          Inl e \<Rightarrow> Inl e
                        | Inr es \<Rightarrow> Inr (entry # es))))))"

definition LocalFileHandler_store_path ::
  "pylib \<Rightarrow> fs_world \<Rightarrow> string \<Rightarrow> string option \<Rightarrow> bool \<Rightarrow> int option \<Rightarrow>
   error + entry list" where
  "LocalFileHandler_store_path L w path name checksum max_objects =
     (let local_path = url_netloc (urlparse L path) @ url_path (urlparse L path);
          max_objects' = max_objects_or_default max_objects
      in if checksum = False then Inr [reference_entry (str_or name (basename path)) path path]
         else if isdir w local_path then
           store_dir_files L w path max_objects' 0
             (concat (map (\<lambda>t. snd (snd t)) (fs_walk w False local_path)))
         else if isfile w local_path then
           (case getsize w local_path of
              Inl e \<Rightarrow> Inl e
            | Inr sz \<Rightarrow>
                (case md5_file_b64 L w local_path of
                   Inl e \<Rightarrow> Inl e
                 | Inr dg \<Rightarrow>
                     (case ArtifactManifestEntry (str_or name (basename local_path)) (Some path)
                             dg None (Some (int sz)) None None of
                        Inl e \<Rightarrow> Inl e
                      | Inr entry \<Rightarrow> Inr [entry])))
         else Inl (ValueError (''Path '' @ [CHR 0x22] @ path @ [CHR 0x22] @
                               '' must be a valid file or directory path'')))"

definition TrackingHandler_store_path ::
  "pylib \<Rightarrow> string \<Rightarrow> string option \<Rightarrow> error + entry list" where
  "TrackingHandler_store_path L path name =
     (case name of
        None \<Rightarrow> Inl (ValueError
          (''You must pass name='' @ [CHR 0x22] @ ''<entry_name>'' @ [CHR 0x22] @
           '' when tracking references with unknown schemes. ref: '' @ path))
      | Some n \<Rightarrow>
          Inr [reference_entry (str_or name (drop 1 (url_path (urlparse L path)))) path path])"

text \<open>
  \<open>store_path\<close> of each handler, with the handler as it is after the call. With
  \<open>checksum\<close> set, the S3, GCS and HTTP handlers go on to query the remote store;
  that part is the parameter \<open>fs_remote\<close>.
\<close>

fun handler_store_path ::
  "pylib \<Rightarrow> fs_world \<Rightarrow> handler \<Rightarrow> string \<Rightarrow> string option \<Rightarrow> bool \<Rightarrow> int option \<Rightarrow>
   (error + entry list) \<times> handler" where
  "handler_store_path L w (S3Handler sch initialised) path name checksum max_objects =
     (case init_boto w initialised of
        Inl e \<Rightarrow> (Inl e, S3Handler sch initialised)
      | Inr ready \<Rightarrow>
          (if \<not> checksum
           then (Inr [reference_entry (str_or name (snd (parse_uri L path))) path path],
                 S3Handler sch ready)
           else (fs_remote w sch path name (max_objects_or_default max_objects),
                 S3Handler sch ready)))"
| "handler_store_path L w (GCSHandler sch initialised) path name checksum max_objects =
     (case init_gcs w initialised of
        Inl e \<Rightarrow> (Inl e, GCSHandler sch initialised)
      | Inr ready \<Rightarrow>
          (if checksum = False
           then (Inr [reference_entry (str_or name (snd (parse_uri L path))) path path],
                 GCSHandler sch ready)
           else (fs_remote w sch path name (max_objects_or_default max_objects),
                 GCSHandler sch ready)))"
| "handler_store_path L w (HTTPHandler sch) path name checksum max_objects =
     (if \<not> checksum
      then (Inr [reference_entry (str_or name (basename path)) path path], HTTPHandler sch)
      else (fs_remote w sch path (Some (str_or name (basename path)))
              (max_objects_or_default max_objects),
            HTTPHandler sch))"
| "handler_store_path L w (LocalFileHandler sch) path name checksum max_objects =
     (LocalFileHandler_store_path L w path name checksum max_objects, LocalFileHandler sch)"
| "handler_store_path L w (TrackingHandler sch) path name checksum max_objects =
     (TrackingHandler_store_path L path name, TrackingHandler sch)"

subsection \<open>\<open>MultiHandler\<close>\<close>

record multi_handler =
  mh_handlers :: "(string option, handler) pydict"
  mh_default_handler :: "handler option"

definition MultiHandler :: "handler list \<Rightarrow> handler option \<Rightarrow> multi_handler" where
  "MultiHandler handlers default_handler =
     \<lparr> mh_handlers = foldl (\<lambda>d h. dict_set (handler_scheme h) h d) [] handlers,
       mh_default_handler = default_handler \<rparr>"

text \<open>
  The inner test of \<open>MultiHandler.store_path\<close> is \<open>self._handlers is not None\<close>.
  \<open>_handlers\<close> is the dict built by \<open>__init__\<close>, so the test is true whatever the
  dict holds.
\<close>

definition handlers_is_not_None :: "multi_handler \<Rightarrow> bool" where
  "handlers_is_not_None mh = True"

definition no_handler_registered :: "string \<Rightarrow> error" where
  "no_handler_registered sch =
     ValueError (''No storage handler registered for scheme '' @
                 [CHR 0x22] @ sch @ [CHR 0x22])"

text \<open>What \<open>None.store_path\<close> raises.\<close>

definition none_has_no_store_path :: error where
  "none_has_no_store_path =
     AttributeError ([CHR 0x27] @ ''NoneType'' @ [CHR 0x27] @ '' object has no attribute '' @
                     [CHR 0x27] @ ''store_path'' @ [CHR 0x27])"

definition MultiHandler_store_path ::
  "pylib \<Rightarrow> fs_world \<Rightarrow> multi_handler \<Rightarrow> string \<Rightarrow> string option \<Rightarrow> bool \<Rightarrow> int option \<Rightarrow>
   (error + entry list) \<times> multi_handler" where
  "MultiHandler_store_path L w mh path name checksum max_objects =
     (let sch = url_scheme (urlparse L path) in
      case dict_get (mh_handlers mh) (Some sch) of
        None \<Rightarrow>
          if handlers_is_not_None mh then
            (case mh_default_handler mh of
               None \<Rightarrow> (Inl none_has_no_store_path, mh)
             | Some h \<Rightarrow>
                 (let r = handler_store_path L w h path name checksum max_objects
                  in (fst r, mh\<lparr> mh_default_handler := Some (snd r) \<rparr>)))
          else (Inl (no_handler_registered sch), mh)
      | Some h \<Rightarrow>
          (let r = handler_store_path L w h path name checksum max_objects
           in (fst r, mh\<lparr> mh_handlers := dict_set (Some sch) (snd r) (mh_handlers mh) \<rparr>)))"

text \<open>
  The handler of \<open>WandbStoragePolicy\<close>: S3, GCS, HTTP, HTTPS and local files, with a
  \<open>TrackingHandler\<close> as the default.
\<close>

definition wandb_policy_handler :: multi_handler where
  "wandb_policy_handler =
     MultiHandler
       [S3Handler ''s3'' False, GCSHandler ''gs'' False, HTTPHandler ''http'',
        HTTPHandler ''https'', LocalFileHandler ''file'']
       (Some (TrackingHandler None))"

subsection \<open>\<open>Artifact\<close>\<close>

record artifact =
  a_name :: string
  a_type :: string
  a_final :: bool
  a_digest :: "string option"
  a_manifest :: manifest
  a_added_new :: bool
  a_artifact_dir :: string
  a_cache :: artifacts_cache
  a_storage_policy :: multi_handler

definition finalized_message :: string where
  "finalized_message = ''Can'' @ [CHR 0x27] @ ''t add to finalized artifact.''"

definition ensure_can_add :: "artifact \<Rightarrow> error + unit" where
  "ensure_can_add a = (if a_final a then Inl (ValueError finalized_message) else Inr ())"

text \<open>\<open>name.lstrip("/")\<close>.\<close>

definition lstrip_slash :: "string \<Rightarrow> string" where
  "lstrip_slash s = dropWhile (\<lambda>c. c = CHR ''/'') s"

text \<open>
  Every operation returns its outcome together with the artifact and the file system
  as they are when it returns or raises.
\<close>

definition new_file ::
  "fs_world \<Rightarrow> artifact \<Rightarrow> string \<Rightarrow> string \<Rightarrow> (error + string) \<times> artifact \<times> fs_world" where
  "new_file w a name mode =
     (case ensure_can_add a of
        Inl e \<Rightarrow> (Inl e, a, w)
      | Inr _ \<Rightarrow>
          (let p = join2 (a_artifact_dir a) (lstrip_slash name) in
           if path_exists w p then
             (Inl (ValueError (''File with name '' @ [CHR 0x22] @ name @ [CHR 0x22] @
                               '' already exists'')), a, w)
           else
             (let w1 = mkdir_exists_ok w (dirname p);
                  a1 = a\<lparr> a_added_new := True \<rparr>
              in case py_open w1 p mode of
                   Inl e \<Rightarrow> (Inl e, a1, w1)
                 | Inr w2 \<Rightarrow> (Inr p, a1, w2))))"

text \<open>
  The entry of an embedded file: the digest is computed first, then the size, as the
  keyword arguments are written.
\<close>

definition file_entry ::
  "pylib \<Rightarrow> fs_world \<Rightarrow> string \<Rightarrow> string \<Rightarrow> error + entry" where
  "file_entry L w logical_path physical_path =
     (case md5_file_b64 L w physical_path of
        Inl e \<Rightarrow> Inl e
      | Inr dg \<Rightarrow>
          (case getsize w physical_path of
             Inl e \<Rightarrow> Inl e
           | Inr sz \<Rightarrow>
               ArtifactManifestEntry logical_path None dg None (Some (int sz)) None
                 (Some physical_path)))"

definition add_file ::
  "pylib \<Rightarrow> fs_world \<Rightarrow> artifact \<Rightarrow> string \<Rightarrow> string option \<Rightarrow>
   (error + unit) \<times> artifact \<times> fs_world" where
  "add_file L w a local_path name =
     (case ensure_can_add a of
        Inl e \<Rightarrow> (Inl e, a, w)
      | Inr _ \<Rightarrow>
          if \<not> isfile w local_path
          then (Inl (ValueError (''Path is not a file: '' @ local_path)), a, w)
          else
            (case file_entry L w (str_or name (basename local_path)) local_path of
               Inl e \<Rightarrow> (Inl e, a, w)
             | Inr entry \<Rightarrow>
                 (Inr (), a\<lparr> a_manifest := add_entry (a_manifest a) entry \<rparr>, w)))"

text \<open>
  \<open>add_dir\<close> hands the pairs of logical and physical path to a pool of threads; here
  they are processed one after the other, and the first failure ends the call with
  the entries added so far.
\<close>

fun add_manifest_files ::
  "pylib \<Rightarrow> fs_world \<Rightarrow> manifest \<Rightarrow> (string \<times> string) list \<Rightarrow> error option \<times> manifest" where
  "add_manifest_files L w m [] = (None, m)"
| "add_manifest_files L w m (log_phy_path # rest) =
     (case file_entry L w (fst log_phy_path) (snd log_phy_path) of
        Inl e \<Rightarrow> (Some e, m)
      | Inr entry \<Rightarrow> add_manifest_files L w (add_entry m entry) rest)"

definition dir_paths ::
  "pylib \<Rightarrow> fs_world \<Rightarrow> string \<Rightarrow> string option \<Rightarrow> (string \<times> string) list" where
  "dir_paths L w local_path name =
     concat (map (\<lambda>t.
        map (\<lambda>fname.
               (let physical_path = join2 (fst t) fname;
                    logical_path = relpath L physical_path local_path
                in (case name of None \<Rightarrow> logical_path | Some n \<Rightarrow> join2 n logical_path,
                    physical_path)))
            (snd (snd t)))
        (fs_walk w True local_path))"

definition add_dir ::
  "pylib \<Rightarrow> fs_world \<Rightarrow> artifact \<Rightarrow> string \<Rightarrow> string option \<Rightarrow>
   (error + unit) \<times> artifact \<times> fs_world" where
  "add_dir L w a local_path name =
     (case ensure_can_add a of
        Inl e \<Rightarrow> (Inl e, a, w)
      | Inr _ \<Rightarrow>
          if \<not> isdir w local_path
          then (Inl (ValueError (''Path is not a directory: '' @ local_path)), a, w)
          else
            (let r = add_manifest_files L w (a_manifest a) (dir_paths L w local_path name)
             in (case fst r of None \<Rightarrow> Inr () | Some e \<Rightarrow> Inl e,
                 a\<lparr> a_manifest := snd r \<rparr>, w)))"

definition add_reference ::
  "pylib \<Rightarrow> fs_world \<Rightarrow> artifact \<Rightarrow> string \<Rightarrow> string option \<Rightarrow> bool \<Rightarrow> int option \<Rightarrow>
   (error + unit) \<times> artifact \<times> fs_world" where
  "add_reference L w a uri name checksum max_objects =
     (if url_scheme (urlparse L uri) = [] then
        (Inl (ValueError ''References must be URIs. To reference a local file, use file://''),
         a, w)
      else if a_final a then (Inl (ValueError finalized_message), a, w)
      else
        (let r = MultiHandler_store_path L w (a_storage_policy a) uri name checksum max_objects;
             a1 = a\<lparr> a_storage_policy := snd r \<rparr>
         in case fst r of
              Inl e \<Rightarrow> (Inl e, a1, w)
            | Inr manifest_entries \<Rightarrow>
                (Inr (), a1\<lparr> a_manifest := foldl add_entry (a_manifest a1) manifest_entries \<rparr>,
                 w)))"

text \<open>
  \<open>remap_entry\<close> inside \<open>finalize\<close>: an entry whose file lies in the staging
  directory is copied into the MD5 cache (unless it is there) and pointed at the copy.
\<close>

definition remap_entry ::
  "pylib \<Rightarrow> artifact \<Rightarrow> fs_world \<Rightarrow> entry \<Rightarrow> error option \<times> entry \<times> fs_world" where
  "remap_entry L a w e =
     (case e_local_path e of
        None \<Rightarrow> (None, e, w)
      | Some lp \<Rightarrow>
          if \<not> startswith lp (a_artifact_dir a) then (None, e, w)
          else
            (let rel_path = relpath L lp (a_artifact_dir a);
                 local_path = join2 (a_artifact_dir a) rel_path
             in case check_md5_obj_path L (a_cache a) w (e_digest e) (e_size e) of
                  Inl er \<Rightarrow> (Some er, e, w)
                | Inr r \<Rightarrow>
                    (let cache_path = fst (fst r); hit = snd (fst r); w1 = snd r in
                     if \<not> hit then
                       (case copyfile w1 local_path cache_path of
                          Inl er \<Rightarrow> (Some er, e, w1)
                        | Inr w2 \<Rightarrow> (None, e\<lparr> e_local_path := Some cache_path \<rparr>, w2))
                     else (None, e\<lparr> e_local_path := Some cache_path \<rparr>, w1))))"

fun remap_entries ::
  "pylib \<Rightarrow> artifact \<Rightarrow> fs_world \<Rightarrow> (string, entry) pydict \<Rightarrow>
   error option \<times> (string, entry) pydict \<times> fs_world" where
  "remap_entries L a w [] = (None, [], w)"
| "remap_entries L a w (kv # rest) =
     (case remap_entry L a w (snd kv) of
        (Some er, e', w') \<Rightarrow> (Some er, (fst kv, e') # rest, w')
      | (None, e', w') \<Rightarrow>
          (case remap_entries L a w' rest of
             (r, rest', w'') \<Rightarrow> (r, (fst kv, e') # rest', w'')))"

definition finalize ::
  "pylib \<Rightarrow> fs_world \<Rightarrow> artifact \<Rightarrow> (error + unit) \<times> artifact \<times> fs_world" where
  "finalize L w a =
     (if a_final a then (Inr (), a, w)
      else
        (case (if a_added_new a then add_dir L w a (a_artifact_dir a) None
               else (Inr (), a, w)) of
           (Inl e, a1, w1) \<Rightarrow> (Inl e, a1, w1)
         | (Inr _, a1, w1) \<Rightarrow>
             (let a2 = a1\<lparr> a_final := True,
                          a_digest := Some (digest (md5_hexdigest L) (a_manifest a1)) \<rparr>
              in if a_added_new a2 then
                   (case remap_entries L a2 w1 (entries (a_manifest a2)) of
                      (r, es, w2) \<Rightarrow>
                        (case r of None \<Rightarrow> Inr () | Some e \<Rightarrow> Inl e,
                         a2\<lparr> a_manifest := (a_manifest a2)\<lparr> entries := es \<rparr> \<rparr>, w2))
                 else (Inr (), a2, w1))))"

text \<open>The mutating operations of the builder, and a series of them.\<close>

datatype artifact_op =
    NewFile string string
  | AddFile string "string option"
  | AddDir string "string option"
  | AddReference string "string option" bool "int option"

fun apply_op ::
  "pylib \<Rightarrow> fs_world \<Rightarrow> artifact \<Rightarrow> artifact_op \<Rightarrow> error option \<times> artifact \<times> fs_world" where
  "apply_op L w a (NewFile name mode) =
     (case new_file w a name mode of
        (Inl e, a', w') \<Rightarrow> (Some e, a', w') | (Inr _, a', w') \<Rightarrow> (None, a', w'))"
| "apply_op L w a (AddFile local_path name) =
     (case add_file L w a local_path name of
        (Inl e, a', w') \<Rightarrow> (Some e, a', w') | (Inr _, a', w') \<Rightarrow> (None, a', w'))"
| "apply_op L w a (AddDir local_path name) =
     (case add_dir L w a local_path name of
        (Inl e, a', w') \<Rightarrow> (Some e, a', w') | (Inr _, a', w') \<Rightarrow> (None, a', w'))"
| "apply_op L w a (AddReference uri name checksum max_objects) =
     (case add_reference L w a uri name checksum max_objects of
        (Inl e, a', w') \<Rightarrow> (Some e, a', w') | (Inr _, a', w') \<Rightarrow> (None, a', w'))"

fun apply_ops ::
  "pylib \<Rightarrow> fs_world \<Rightarrow> artifact \<Rightarrow> artifact_op list \<Rightarrow>
   error option list \<times> artifact \<times> fs_world" where
  "apply_ops L w a [] = ([], a, w)"
| "apply_ops L w a (op # ops) =
     (case apply_op L w a op of
        (r, a', w') \<Rightarrow>
          (case apply_ops L w' a' ops of (rs, a'', w'') \<Rightarrow> (r # rs, a'', w'')))"

section \<open>TensorBoard watcher (\<open>wandb/internal/tb_watcher.py\<close>)\<close>

subsection \<open>Parsing integers\<close>

text \<open>
  \<open>int(s)\<close> is a parameter \<open>int_of\<close> of the filter (\<open>None\<close> stands for
  \<open>ValueError\<close>). \<open>decimal_int\<close> is the instance used to evaluate examples: the
  literals made of an optional sign and decimal digits.
\<close>

definition digit_val :: "char \<Rightarrow> nat option" where
  "digit_val c = list_index ''0123456789'' c"

fun digits_nat :: "nat \<Rightarrow> string \<Rightarrow> nat option" where
  "digits_nat acc [] = Some acc"
| "digits_nat acc (c # cs) =
     (case digit_val c of None \<Rightarrow> None | Some d \<Rightarrow> digits_nat (10 * acc + d) cs)"

definition decimal_int :: "string \<Rightarrow> int option" where
  "decimal_int s =
     (case s of
        [] \<Rightarrow> None
      | c # cs \<Rightarrow>
          if c = CHR ''-'' then (if cs = [] then None else map_option (\<lambda>n. - int n) (digits_nat 0 cs))
          else if c = CHR ''+'' then (if cs = [] then None else map_option int (digits_nat 0 cs))
          else map_option int (digits_nat 0 s))"

subsection \<open>\<open>is_tfevents_file_created_by\<close>\<close>

text \<open>
  The loop over \<open>enumerate(hostname.split("."))\<close>: \<open>False\<close> as soon as the file name
  has no component at position \<open>tfevents_idx + 2 + i\<close> or the component differs;
  \<open>True\<close> when the loop runs to its end.
\<close>

fun hostname_loop :: "string list \<Rightarrow> nat \<Rightarrow> (nat \<times> string) list \<Rightarrow> bool" where
  "hostname_loop fname_components tfevents_idx [] = True"
| "hostname_loop fname_components tfevents_idx ((i, part) # rest) =
     (case list_get fname_components (tfevents_idx + 2 + i) of
        None \<Rightarrow> False
      | Some fname_component_part \<Rightarrow>
          if part \<noteq> fname_component_part then False
          else hostname_loop fname_components tfevents_idx rest)"

definition is_tfevents_file_created_by ::
  "(string \<Rightarrow> int option) \<Rightarrow> string \<Rightarrow> string \<Rightarrow> real \<Rightarrow> error + bool" where
  "is_tfevents_file_created_by int_of path hostname start_time =
     (if path = [] then Inl (ValueError ''Path must be a nonempty string'')
      else
        let bname = basename path in
        if endswith bname ''.profile_empty'' then Inr False
        else
          let fname_components = split_on CHR ''.'' bname in
          case list_index fname_components ''tfevents'' of
            None \<Rightarrow> Inr False
          | Some tfevents_idx \<Rightarrow>
              if \<not> hostname_loop fname_components tfevents_idx
                     (enumerate 0 (split_on CHR ''.'' hostname))
              then Inr False
              else
                (case list_get fname_components (tfevents_idx + 1) of
                   None \<Rightarrow> Inr False
                 | Some c \<Rightarrow>
                     (case int_of c of
                        None \<Rightarrow> Inr False
                      | Some created_time \<Rightarrow> Inr (start_time \<le> of_int created_time))))"

subsection \<open>\<open>TBHistory\<close>\<close>

text \<open>
  A row is a \<open>dict\<close> object. \<open>_flush\<close> appends the object held in \<open>_data\<close> to
  \<open>_added\<close> without copying it, so rows are references into a store of dict objects:
  a later write through \<open>_data\<close> is seen through every reference to that object.
  The values of a row are the step counter (\<open>IntV\<close>) or a logged value.
\<close>

datatype 'a pyval = IntV int | OtherV 'a

type_synonym 'a row = "(string, 'a pyval) pydict"

record 'a tb_history =
  h_step :: nat
  h_data :: nat
  h_added :: "nat list"
  h_store :: "nat \<Rightarrow> 'a row"
  h_next :: nat

text \<open>\<open>__init__\<close>: \<open>_data = dict()\<close> allocates the first dict object.\<close>

definition TBHistory_init :: "'a tb_history" where
  "TBHistory_init =
     \<lparr> h_step = 0, h_data = 0, h_added = [], h_store = (\<lambda>_. []), h_next = 1 \<rparr>"

definition TBHistory_flush :: "'a tb_history \<Rightarrow> 'a tb_history" where
  "TBHistory_flush s =
     (if h_store s (h_data s) = [] then s
      else s\<lparr> h_store := (h_store s)
                 (h_data s := dict_set ''_step'' (IntV (int (h_step s))) (h_store s (h_data s))),
              h_added := h_added s @ [h_data s],
              h_step := h_step s + 1 \<rparr>)"

definition TBHistory_add :: "'a row \<Rightarrow> 'a tb_history \<Rightarrow> 'a tb_history" where
  "TBHistory_add d s =
     (let s1 = TBHistory_flush s;
          r = h_next s1
      in s1\<lparr> h_data := r, h_store := (h_store s1)(r := dict_update [] d), h_next := r + 1 \<rparr>)"

definition TBHistory_row_update :: "'a row \<Rightarrow> 'a tb_history \<Rightarrow> 'a tb_history" where
  "TBHistory_row_update d s =
     s\<lparr> h_store := (h_store s)(h_data s := dict_update (h_store s (h_data s)) d) \<rparr>"

text \<open>\<open>_get_and_reset\<close> returns a copy of the list \<open>_added\<close> (the same row objects).\<close>

definition TBHistory_get_and_reset :: "'a tb_history \<Rightarrow> nat list \<times> 'a tb_history" where
  "TBHistory_get_and_reset s = (h_added s, s\<lparr> h_added := [] \<rparr>)"

text \<open>
  A sequence of operations on one \<open>TBHistory\<close>. The observation is the concatenation
  of the rows returned by the calls of \<open>_get_and_reset\<close>, each row read when it is
  returned (the consumer publishes the rows as soon as it gets them).
\<close>

datatype 'a tb_op = Add "'a row" | Flush | GetAndReset

fun run_ops :: "'a tb_history \<Rightarrow> 'a tb_op list \<Rightarrow> 'a row list" where
  "run_ops s [] = []"
| "run_ops s (Add d # ops) = run_ops (TBHistory_add d s) ops"
| "run_ops s (Flush # ops) = run_ops (TBHistory_flush s) ops"
| "run_ops s (GetAndReset # ops) =
     map (h_store s) (fst (TBHistory_get_and_reset s)) @
     run_ops (snd (TBHistory_get_and_reset s)) ops"

definition steps_of :: "'a row list \<Rightarrow> 'a pyval option list" where
  "steps_of rows = map (\<lambda>r. dict_get r ''_step'') rows"

text \<open>
  The way the consumer drives a \<open>TBHistory\<close>: once \<open>_flush\<close> has emitted the
  in-flight map, that map is not flushed again, neither by another \<open>_flush\<close> nor by
  the flush at the start of \<open>add\<close>. \<open>nonempty\<close> says that the in-flight map is
  non-empty, \<open>emitted\<close> that \<open>_flush\<close> has already appended it.
\<close>

fun flushed_once :: "bool \<Rightarrow> bool \<Rightarrow> 'a tb_op list \<Rightarrow> bool" where
  "flushed_once nonempty emitted [] = True"
| "flushed_once nonempty emitted (Add d # ops) =
     (\<not> (nonempty \<and> emitted) \<and> flushed_once (d \<noteq> []) False ops)"
| "flushed_once nonempty emitted (Flush # ops) =
     (\<not> (nonempty \<and> emitted) \<and> flushed_once nonempty nonempty ops)"
| "flushed_once nonempty emitted (GetAndReset # ops) = flushed_once nonempty emitted ops"

section \<open>Sweep agent (\<open>wandb/wandb_agent.py\<close>)\<close>

subsection \<open>The operating system as the agent sees it\<close>

text \<open>
  \<open>platform.system() == "Windows"\<close> selects between two behaviours. The two clocks
  are \<open>time.time()\<close> and \<open>util.stopwatch_now()\<close>; \<open>w_start_time\<close> is
  \<open>wandb.START_TIME\<close>. Times are real numbers of seconds.
\<close>

datatype platform = Windows | Posix

record os_world =
  w_platform :: platform
  w_time :: real
  w_stopwatch :: real
  w_start_time :: real
  w_environ :: "string \<Rightarrow> string option"

text \<open>
  What the agent asks the operating system to do to a child. Every request is logged
  on the child with the stopwatch reading at which it was made.
\<close>

datatype child_call =
    Popen_send_signal_CTRL_C_EVENT
  | Popen_terminate
  | Popen_kill
  | Process_terminate
  | Os_kill_SIGKILL nat
  | Process_join

subsection \<open>\<open>AgentProcess\<close>\<close>

text \<open>
  A child is either a subprocess (\<open>_popen\<close> is set, \<open>p_is_popen\<close>) or an
  in-process function run by \<open>multiprocessing.Process\<close> (\<open>_proc\<close> is set).
  \<open>p_returncode\<close> is what \<open>Popen.poll()\<close> reports at the moment, \<open>p_pid\<close> is
  \<open>_proc.pid\<close>, \<open>p_finished_q\<close> the items waiting in \<open>_finished_q\<close>.
  \<open>p_gone\<close> says that the operating system no longer knows the child, so that a
  signal request raises \<open>OSError\<close>.
\<close>

record agent_process =
  p_is_popen :: bool
  p_returncode :: "int option"
  p_pid :: "nat option"
  p_finished_q :: "bool list"
  p_proc_killed :: bool
  p_last_sigterm_time :: "real option"
  p_gone :: bool
  p_calls :: "(real \<times> child_call) list"


definition log_call :: "os_world \<Rightarrow> child_call \<Rightarrow> agent_process \<Rightarrow> agent_process" where
  "log_call w c p = p\<lparr> p_calls := p_calls p @ [(w_stopwatch w, c)] \<rparr>"


definition AgentProcess_terminate :: "os_world \<Rightarrow> agent_process \<Rightarrow> error + agent_process" where
  "AgentProcess_terminate w p =
     (if p_gone p then Inl (OSError ''no such process'')
      else if p_is_popen p then
        (if w_platform w = Windows then Inr (log_call w Popen_send_signal_CTRL_C_EVENT p)
         else Inr (log_call w Popen_terminate p))
      else Inr (log_call w Process_terminate p))"

text \<open>
  \<open>AgentProcess.kill\<close>. For a function child the argument of \<open>os.kill\<close> is
  \<open>signal.SIGKILL\<close>, a name that the module \<open>signal\<close> does not have on Windows:
  there the evaluation of the argument raises \<open>AttributeError\<close>, before any request
  is made and before \<open>_proc_killed\<close> is set.
\<close>

definition signal_has_no_SIGKILL :: error where
  "signal_has_no_SIGKILL =
     AttributeError (''module '' @ [CHR 0x27] @ ''signal'' @ [CHR 0x27] @
                     '' has no attribute '' @ [CHR 0x27] @ ''SIGKILL'' @ [CHR 0x27])"

definition AgentProcess_kill :: "os_world \<Rightarrow> agent_process \<Rightarrow> error + agent_process" where
  "AgentProcess_kill w p =
     (if p_is_popen p then
        (if p_gone p then Inl (OSError ''no such process'') else Inr (log_call w Popen_kill p))
      else
        (case p_pid p of
           None \<Rightarrow> Inr p
         | Some pid \<Rightarrow>
             if pid = 0 then Inr p
             else if w_platform w = Windows then Inl signal_has_no_SIGKILL
             else if p_gone p then Inl (OSError ''no such process'')
             else Inr ((log_call w (Os_kill_SIGKILL pid) p)\<lparr> p_proc_killed := True \<rparr>)))"

subsection \<open>\<open>Agent\<close>\<close>

record agent =
  running :: bool
  failed :: nat
  finished :: nat
  run_processes :: "(string, agent_process) pydict"
  last_report_time :: "real option"
  kill_delay :: real
  run_count :: "nat option"



definition KILL_DELAY :: real where
  "KILL_DELAY = 30"










text \<open>
  \<open>Agent._command_stop\<close>. Only an \<open>OSError\<close> from the request is swallowed
  (\<open>except OSError: pass\<close>); any other exception leaves the method. The assignment
  of \<open>last_sigterm_time\<close> precedes the terminate request and stays, whatever the
  request does.
\<close>

definition is_OSError :: "error \<Rightarrow> bool" where
  "is_OSError e = (case e of OSError _ \<Rightarrow> True | _ \<Rightarrow> False)"

definition command_stop :: "os_world \<Rightarrow> string \<Rightarrow> agent \<Rightarrow> (error + unit) \<times> agent" where
  "command_stop w run_id a =
     (case dict_get (run_processes a) run_id of
        None \<Rightarrow> (Inr (), a)
      | Some proc \<Rightarrow>
          (let now = w_stopwatch w in
           case p_last_sigterm_time proc of
             None \<Rightarrow>
               (let proc1 = proc\<lparr> p_last_sigterm_time := Some now \<rparr>
                in case AgentProcess_terminate w proc1 of
                     Inl e \<Rightarrow>
                       (if is_OSError e then Inr () else Inl e,
                        a\<lparr> run_processes := dict_set run_id proc1 (run_processes a) \<rparr>)
                   | Inr proc2 \<Rightarrow>
                       (Inr (), a\<lparr> run_processes := dict_set run_id proc2 (run_processes a) \<rparr>))
           | Some t \<Rightarrow>
               if t + kill_delay a < now then
                 (case AgentProcess_kill w proc of
                    Inl e \<Rightarrow> (if is_OSError e then Inr () else Inl e, a)
                  | Inr proc2 \<Rightarrow>
                      (Inr (), a\<lparr> run_processes := dict_set run_id proc2 (run_processes a) \<rparr>))
               else (Inr (), a)))"

text \<open>
  A stop command as \<open>Agent._process_command\<close> handles it: an exception of
  \<open>_command_stop\<close> is caught (\<open>except Exception\<close>) and reported in the
  response; the agent goes on in the state that the method left.
\<close>

definition process_stop_command :: "os_world \<Rightarrow> string \<Rightarrow> agent \<Rightarrow> error option \<times> agent" where
  "process_stop_command w run_id a =
     (case command_stop w run_id a of
        (Inl e, a') \<Rightarrow> (Some e, a')
      | (Inr _, a') \<Rightarrow> (None, a'))"

text \<open>
  A series of stop commands, each arriving at its own stopwatch reading and naming a
  run.
\<close>

fun stop_commands :: "os_world \<Rightarrow> (real \<times> string) list \<Rightarrow> agent \<Rightarrow> agent" where
  "stop_commands w [] a = a"
| "stop_commands w ((now, run_id) # cmds) a =
     stop_commands w cmds (snd (process_stop_command (w\<lparr> w_stopwatch := now \<rparr>) run_id a))"

text \<open>
  What \<open>_command_run\<close> leaves in \<open>_run_processes\<close> for a new child: a process that
  was started (a started \<open>multiprocessing.Process\<close> has a pid), is known to the
  operating system, has received no request and has \<open>last_sigterm_time = None\<close>.
\<close>

definition started_child :: "agent_process \<Rightarrow> bool" where
  "started_child p \<longleftrightarrow>
     \<not> p_gone p \<and> (p_is_popen p \<or> (\<exists>pid. p_pid p = Some pid \<and> pid \<noteq> 0))"

definition terminate_call :: "os_world \<Rightarrow> agent_process \<Rightarrow> child_call" where
  "terminate_call w p =
     (if p_is_popen p then
        (if w_platform w = Windows then Popen_send_signal_CTRL_C_EVENT else Popen_terminate)
      else Process_terminate)"

definition is_kill :: "child_call \<Rightarrow> bool" where
  "is_kill c = (case c of Popen_kill \<Rightarrow> True | Os_kill_SIGKILL _ \<Rightarrow> True | _ \<Rightarrow> False)"

definition is_terminate :: "child_call \<Rightarrow> bool" where
  "is_terminate c =
     (case c of Popen_send_signal_CTRL_C_EVENT \<Rightarrow> True | Popen_terminate \<Rightarrow> True
              | Process_terminate \<Rightarrow> True | _ \<Rightarrow> False)"
section \<open>Manifest digest: order independence\<close>

lemma dict_set_fresh: "k \<notin> fst ` set d \<Longrightarrow> dict_set k v d = d @ [(k, v)]"
  by (induction d) auto

lemma entries_foldl_add_entry:
  "distinct (map e_path es) \<Longrightarrow> set (map e_path es) \<inter> fst ` set (entries m) = {} \<Longrightarrow>
   entries (foldl add_entry m es) = entries m @ map (\<lambda>e. (e_path e, e)) es"
proof (induction es arbitrary: m)
  case Nil
  then show ?case by simp
next
  case (Cons e es)
  have fresh: "e_path e \<notin> fst ` set (entries m)"
    using Cons.prems(2) by auto
  have step: "entries (add_entry m e) = entries m @ [(e_path e, e)]"
    using fresh by (simp add: add_entry_def dict_set_fresh)
  have "set (map e_path es) \<inter> fst ` set (entries (add_entry m e)) = {}"
    using Cons.prems by (auto simp: step)
  with Cons have "entries (foldl add_entry (add_entry m e) es) =
      entries (add_entry m e) @ map (\<lambda>e. (e_path e, e)) es"
    by simp
  then show ?case by (simp add: step)
qed

lemma foldl_hasher_concat:
  "foldl (\<lambda>h kv. hasher_update h (f kv)) h0 xs = h0 @ concat (map f xs)"
  by (induction xs arbitrary: h0) (simp_all add: hasher_update_def)

lemma hasher_update_Nil: "hasher_update [] b = b"
  by (simp add: hasher_update_def)

lemma sort_key_pairs:
  "sort_key fst (map (\<lambda>e. (f e, e)) es) = map (\<lambda>e. (f e, e)) (sort_key f es)"
proof (induction es)
  case Nil
  then show ?case by simp
next
  case (Cons e es)
  have ins: "insort_key fst (f e, e) (map (\<lambda>e. (f e, e)) ys) =
             map (\<lambda>e. (f e, e)) (insort_key f e ys)" for ys
    by (induction ys) simp_all
  show ?case using Cons by (simp add: ins)
qed

lemma digest_of_inserted:
  assumes "distinct (map e_path es)"
  shows "digest md5 (foldl add_entry empty_manifest es) =
         md5 (manifest_header @
              concat (map (\<lambda>e. manifest_line (e_path e) (e_digest e)) (sort_key e_path es)))"
proof -
  have "entries (foldl add_entry empty_manifest es) = map (\<lambda>e. (e_path e, e)) es"
    using entries_foldl_add_entry [OF assms, of empty_manifest]
    by (simp add: empty_manifest_def)
  then show ?thesis
    by (simp add: digest_def foldl_hasher_concat sort_key_pairs hasher_update_Nil
        comp_def)
qed

lemma sort_key_permutation:
  assumes "distinct (map f xs)" and "mset ys = mset xs"
  shows "sort_key f ys = sort_key f xs"
proof -
  have inj: "inj_on f (set xs)"
    using assms(1) by (simp add: distinct_map)
  have sets: "set ys = set xs"
    using assms(2) by (metis set_mset_mset)
  have dys: "distinct (map f ys)"
    using assms by (metis distinct_map mset_eq_imp_distinct_iff inj sets)
  show ?thesis
  proof (rule map_sorted_distinct_set_unique [of f])
    show "inj_on f (set (sort_key f ys) \<union> set (sort_key f xs))"
      using inj sets by simp
    show "distinct (map f (sort_key f ys))"
      using dys by (simp add: distinct_map)
    show "distinct (map f (sort_key f xs))"
      using assms(1) by (simp add: distinct_map)
  qed (simp_all add: sets)
qed

lemma sorted_strict_of_distinct:
  assumes "distinct (map f xs)"
  shows "sorted_wrt (\<lambda>a b. f a < f b) (sort_key f xs)"
proof -
  have "sorted (map f (sort_key f xs))" by simp
  moreover have "distinct (map f (sort_key f xs))"
    using assms by (simp add: distinct_map)
  ultimately have "sorted_wrt (<) (map f (sort_key f xs))"
    by (simp add: strict_sorted_iff)
  then show ?thesis by (simp add: sorted_wrt_map)
qed

text \<open>
  C1. Insert any entries with pairwise distinct paths, in any order, into an empty
  manifest. The digest is MD5 of the header line followed by the line
  \<open>path:digest\<close> of every entry, the entries taken in strictly ascending order of
  their paths (the list \<open>ys\<close> is a rearrangement of the inserted entries that is
  strictly sorted by path). Inserting the same entries in another order \<open>es'\<close>
  gives the same digest.
\<close>

theorem digest_sorted_by_path:
  assumes "distinct (map e_path es)" and "mset es' = mset es"
  shows "(\<exists>ys. mset ys = mset es \<and> sorted_wrt (\<lambda>a b. e_path a < e_path b) ys \<and>
            digest md5 (foldl add_entry empty_manifest es) =
            md5 (''wandb-artifact-manifest-v1'' @ [CHR 0x0A] @
                 concat (map (\<lambda>e. e_path e @ '':'' @ e_digest e @ [CHR 0x0A]) ys))) \<and>
         digest md5 (foldl add_entry empty_manifest es') =
         digest md5 (foldl add_entry empty_manifest es)"
proof
  let ?ys = "sort_key e_path es"
  have "mset ?ys = mset es" by simp
  moreover have "sorted_wrt (\<lambda>a b. e_path a < e_path b) ?ys"
    using assms(1) by (rule sorted_strict_of_distinct)
  moreover have "digest md5 (foldl add_entry empty_manifest es) =
      md5 (''wandb-artifact-manifest-v1'' @ [CHR 0x0A] @
           concat (map (\<lambda>e. e_path e @ '':'' @ e_digest e @ [CHR 0x0A]) ?ys))"
    using digest_of_inserted [OF assms(1), of md5]
    by (simp add: manifest_header_def manifest_line_def newline_def)
  ultimately show "\<exists>ys. mset ys = mset es \<and> sorted_wrt (\<lambda>a b. e_path a < e_path b) ys \<and>
      digest md5 (foldl add_entry empty_manifest es) =
      md5 (''wandb-artifact-manifest-v1'' @ [CHR 0x0A] @
           concat (map (\<lambda>e. e_path e @ '':'' @ e_digest e @ [CHR 0x0A]) ys))"
    by blast
next
  have d': "distinct (map e_path es')"
    using assms by (metis distinct_map mset_eq_imp_distinct_iff set_mset_mset)
  show "digest md5 (foldl add_entry empty_manifest es') =
        digest md5 (foldl add_entry empty_manifest es)"
    using digest_of_inserted [OF assms(1), of md5] digest_of_inserted [OF d', of md5]
      sort_key_permutation [OF assms(1) assms(2)]
    by simp
qed

theorem digest_sorted_by_path_witness:
  "distinct (map e_path
     [\<lparr> e_path = ''b.txt'', e_ref = None, e_digest = ''BB'', e_birth_artifact_id = None,
        e_size = Some 2, e_extra = [], e_local_path = None \<rparr>,
      \<lparr> e_path = ''a.txt'', e_ref = None, e_digest = ''AA'', e_birth_artifact_id = None,
        e_size = Some 1, e_extra = [], e_local_path = None \<rparr>]) \<and>
   digest (\<lambda>b. b) (foldl add_entry empty_manifest
     [\<lparr> e_path = ''b.txt'', e_ref = None, e_digest = ''BB'', e_birth_artifact_id = None,
        e_size = Some 2, e_extra = [], e_local_path = None \<rparr>,
      \<lparr> e_path = ''a.txt'', e_ref = None, e_digest = ''AA'', e_birth_artifact_id = None,
        e_size = Some 1, e_extra = [], e_local_path = None \<rparr>]) =
     ''wandb-artifact-manifest-v1'' @ [CHR 0x0A] @ ''a.txt:AA'' @ [CHR 0x0A] @
     ''b.txt:BB'' @ [CHR 0x0A] \<and>
   digest (\<lambda>b. b) (foldl add_entry empty_manifest
     [\<lparr> e_path = ''a.txt'', e_ref = None, e_digest = ''AA'', e_birth_artifact_id = None,
        e_size = Some 1, e_extra = [], e_local_path = None \<rparr>,
      \<lparr> e_path = ''b.txt'', e_ref = None, e_digest = ''BB'', e_birth_artifact_id = None,
        e_size = Some 2, e_extra = [], e_local_path = None \<rparr>]) =
   digest (\<lambda>b. b) (foldl add_entry empty_manifest
     [\<lparr> e_path = ''b.txt'', e_ref = None, e_digest = ''BB'', e_birth_artifact_id = None,
        e_size = Some 2, e_extra = [], e_local_path = None \<rparr>,
      \<lparr> e_path = ''a.txt'', e_ref = None, e_digest = ''AA'', e_birth_artifact_id = None,
        e_size = Some 1, e_extra = [], e_local_path = None \<rparr>])"
  using digest_sorted_by_path
    [of "[\<lparr> e_path = ''b.txt'', e_ref = None, e_digest = ''BB'', e_birth_artifact_id = None,
            e_size = Some 2, e_extra = [], e_local_path = None \<rparr>,
          \<lparr> e_path = ''a.txt'', e_ref = None, e_digest = ''AA'', e_birth_artifact_id = None,
            e_size = Some 1, e_extra = [], e_local_path = None \<rparr>]"
        "[\<lparr> e_path = ''a.txt'', e_ref = None, e_digest = ''AA'', e_birth_artifact_id = None,
            e_size = Some 1, e_extra = [], e_local_path = None \<rparr>,
          \<lparr> e_path = ''b.txt'', e_ref = None, e_digest = ''BB'', e_birth_artifact_id = None,
            e_size = Some 2, e_extra = [], e_local_path = None \<rparr>]"
        "\<lambda>b. b"]
  by (simp add: digest_def add_entry_def empty_manifest_def hasher_update_def
      manifest_header_def manifest_line_def newline_def)

section \<open>Cache lookup\<close>

lemma join2_plain:
  "p \<noteq> [] \<Longrightarrow> last p \<noteq> CHR ''/'' \<Longrightarrow> take 1 b \<noteq> ''/'' \<Longrightarrow> join2 p b = p @ ''/'' @ b"
  by (simp add: join2_def)

lemma hex_digit_not_slash: "hex_digit n \<noteq> CHR ''/''"
proof -
  have "n mod 16 < length ''0123456789abcdef''" by simp
  then have "hex_digit n \<in> set ''0123456789abcdef''"
    unfolding hex_digit_def by (rule nth_mem)
  then show ?thesis by auto
qed

lemma bytes_to_hex_Cons:
  "bytes_to_hex (c # cs) =
   hex_digit (of_char c div 16) # hex_digit (of_char c) # bytes_to_hex cs"
  by (simp add: bytes_to_hex_def)

lemma bytes_to_hex_no_slash: "CHR ''/'' \<notin> set (bytes_to_hex bs)"
proof (induction bs)
  case Nil
  then show ?case by (simp add: bytes_to_hex_def)
next
  case (Cons c cs)
  then show ?case
    by (simp add: bytes_to_hex_Cons hex_digit_not_slash [symmetric])
qed

lemma layout_join:
  assumes "croot \<noteq> []" and "last croot \<noteq> CHR ''/''"
    and "kind \<noteq> []" and "CHR ''/'' \<notin> set kind"
    and "key \<noteq> []" and "CHR ''/'' \<notin> set (take 3 key)"
  shows "path_join croot [''obj'', kind, take 2 key, drop 2 key] =
         croot @ ''/obj/'' @ kind @ ''/'' @ take 2 key @ ''/'' @ drop 2 key"
proof -
  have j1: "join2 croot ''obj'' = croot @ ''/obj''"
    using assms(1,2) by (simp add: join2_def)
  have k1: "take 1 kind \<noteq> ''/''"
    using assms(3,4) by (cases kind) auto
  have j2: "join2 (croot @ ''/obj'') kind = croot @ ''/obj/'' @ kind"
    using k1 by (simp add: join2_def)
  have "last kind \<in> set kind"
    using assms(3) by simp
  with assms(4) have "last kind \<noteq> CHR ''/''"
    by auto
  then have lk: "last (croot @ ''/obj/'' @ kind) \<noteq> CHR ''/''"
    using assms(3) by simp
  have t2a: "take 2 key \<noteq> []"
    using assms(5) by simp
  have sub: "set (take 2 key) \<subseteq> set (take 3 key)"
    by (rule set_take_subset_set_take) simp
  have t2b: "take 1 (take 2 key) \<noteq> ''/''"
    using assms(5,6) by (cases key) auto
  have "last (take 2 key) \<in> set (take 2 key)"
    using t2a by (rule last_in_set)
  with sub assms(6) have t2c: "last (take 2 key) \<noteq> CHR ''/''"
    by auto
  have j3: "join2 (croot @ ''/obj/'' @ kind) (take 2 key) =
            croot @ ''/obj/'' @ kind @ ''/'' @ take 2 key"
    using t2b lk by (simp add: join2_def)
  have l3: "last (croot @ ''/obj/'' @ kind @ ''/'' @ take 2 key) \<noteq> CHR ''/''"
    using t2a t2c by simp
  have d2: "take 1 (drop 2 key) \<noteq> ''/''"
  proof (cases key)
    case Nil
    then show ?thesis by simp
  next
    case outer: (Cons a k1)
    show ?thesis
    proof (cases k1)
      case Nil
      with outer show ?thesis by simp
    next
      case (Cons b k2)
      with outer assms(6) show ?thesis
        by (cases k2) auto
    qed
  qed
  have j4: "join2 (croot @ ''/obj/'' @ kind @ ''/'' @ take 2 key) (drop 2 key) =
            croot @ ''/obj/'' @ kind @ ''/'' @ take 2 key @ ''/'' @ drop 2 key"
    using d2 l3 by (simp add: join2_def)
  show ?thesis
    unfolding path_join_def by (simp only: foldl.simps j1 j2 j3 j4)
qed

lemma isdir_mkdir_exists_ok: "isdir (mkdir_exists_ok w d) d"
  by (simp add: isdir_def mkdir_exists_ok_def abspath_def)

lemma files_mkdir_exists_ok: "fs_files (mkdir_exists_ok w d) = fs_files w"
  by (simp add: mkdir_exists_ok_def)

text \<open>
  The lookup by MD5, for a digest that \<open>b64decode\<close> accepts and that is not empty,
  in a cache whose root does not end with a slash: the path is
  \<open>root/obj/md5/hh/rest\<close>; it is a hit exactly when a regular file of the given size
  is there; on a miss the parent directory exists afterwards, the files are untouched.
\<close>

lemma check_md5_obj_path_layout:
  assumes "b64decode L b64_md5 = Some raw" and "raw \<noteq> []"
    and "cache_dir c \<noteq> []" and "last (cache_dir c) \<noteq> CHR ''/''"
  shows "\<exists>w'. check_md5_obj_path L c w b64_md5 sz =
           Inr ((cache_dir c @ ''/obj/md5/'' @ take 2 (bytes_to_hex raw) @ ''/'' @
                 drop 2 (bytes_to_hex raw),
                 isfile w (cache_dir c @ ''/obj/md5/'' @ take 2 (bytes_to_hex raw) @ ''/'' @
                           drop 2 (bytes_to_hex raw)) \<and>
                 size_is w (cache_dir c @ ''/obj/md5/'' @ take 2 (bytes_to_hex raw) @ ''/'' @
                            drop 2 (bytes_to_hex raw)) sz), w') \<and>
         fs_files w' = fs_files w \<and>
         (isfile w (cache_dir c @ ''/obj/md5/'' @ take 2 (bytes_to_hex raw) @ ''/'' @
                    drop 2 (bytes_to_hex raw)) \<and>
          size_is w (cache_dir c @ ''/obj/md5/'' @ take 2 (bytes_to_hex raw) @ ''/'' @
                     drop 2 (bytes_to_hex raw)) sz
          \<or> isdir w' (dirname (cache_dir c @ ''/obj/md5/'' @ take 2 (bytes_to_hex raw) @ ''/'' @
                              drop 2 (bytes_to_hex raw))))"
proof -
  have hex_ne: "bytes_to_hex raw \<noteq> []"
    using assms(2) by (cases raw) (simp_all add: bytes_to_hex_Cons)
  have "CHR ''/'' \<notin> set (take 3 (bytes_to_hex raw))"
    using bytes_to_hex_no_slash [of raw] by (meson in_set_takeD)
  from layout_join [OF assms(3,4) _ _ hex_ne this, of "''md5''"]
  have p: "path_join (cache_dir c) [''obj'', ''md5'', take 2 (bytes_to_hex raw),
                                    drop 2 (bytes_to_hex raw)] =
           cache_dir c @ ''/obj/md5/'' @ take 2 (bytes_to_hex raw) @ ''/'' @
           drop 2 (bytes_to_hex raw)"
    by simp
  show ?thesis
    using assms(1)
    by (auto simp: check_md5_obj_path_def Let_def p isdir_mkdir_exists_ok
        files_mkdir_exists_ok)
qed

text \<open>
  The lookup by ETag, for a non-empty ETag with no slash among its first three
  characters: the same with \<open>root/obj/etag/hh/rest\<close>.
\<close>

lemma check_etag_obj_path_layout:
  assumes "etag \<noteq> []" and "CHR ''/'' \<notin> set (take 3 etag)"
    and "cache_dir c \<noteq> []" and "last (cache_dir c) \<noteq> CHR ''/''"
  shows "\<exists>w'. check_etag_obj_path c w etag sz =
           ((cache_dir c @ ''/obj/etag/'' @ take 2 etag @ ''/'' @ drop 2 etag,
             isfile w (cache_dir c @ ''/obj/etag/'' @ take 2 etag @ ''/'' @ drop 2 etag) \<and>
             size_is w (cache_dir c @ ''/obj/etag/'' @ take 2 etag @ ''/'' @ drop 2 etag) sz),
            w') \<and>
         fs_files w' = fs_files w \<and>
         (isfile w (cache_dir c @ ''/obj/etag/'' @ take 2 etag @ ''/'' @ drop 2 etag) \<and>
          size_is w (cache_dir c @ ''/obj/etag/'' @ take 2 etag @ ''/'' @ drop 2 etag) sz
          \<or> isdir w' (dirname (cache_dir c @ ''/obj/etag/'' @ take 2 etag @ ''/'' @
                              drop 2 etag)))"
proof -
  from layout_join [OF assms(3,4) _ _ assms(1,2), of "''etag''"]
  have p: "path_join (cache_dir c) [''obj'', ''etag'', take 2 etag, drop 2 etag] =
           cache_dir c @ ''/obj/etag/'' @ take 2 etag @ ''/'' @ drop 2 etag"
    by simp
  show ?thesis
    by (auto simp: check_etag_obj_path_def Let_def p isdir_mkdir_exists_ok
        files_mkdir_exists_ok)
qed

lemma size_is_iff:
  "isfile w p \<Longrightarrow> size_is w p sz \<longleftrightarrow>
     (\<exists>content. fs_files w (abspath w p) = Some content \<and> sz = Some (int (length content)))"
  by (auto simp: isfile_def size_is_def getsize_def)

text \<open>
  C2 on the code, for the lookup of the ETag \<open>ab/cd\<close>. The slash is the third
  character, so \<open>etag[2:]\<close> is the absolute path \<open>/cd\<close> and \<open>os.path.join\<close>
  drops the cache root and everything else before it: whatever the cache root, the
  path returned is \<open>/cd\<close>, where the claim has \<open>root/obj/etag/ab/...\<close>; the hit is
  decided by the file \<open>/cd\<close>. With the cache root
  \<open>/home/u/.cache/wandb/artifacts\<close> and no file \<open>/cd\<close>, the lookup is a miss and
  the directory it ensures is \<open>/\<close>, outside the cache. For the ETag \<open>abc\<close> the
  same cache gives the path of the claim.
\<close>

theorem etag_with_slash_leaves_cache:
  "fst (check_etag_obj_path c w ''ab/cd'' sz) =
     (''/cd'', isfile w ''/cd'' \<and> size_is w ''/cd'' sz) \<and>
   fst (check_etag_obj_path \<lparr> cache_dir = ''/home/u/.cache/wandb/artifacts'' \<rparr>
     \<lparr> fs_cwd = ''/home/u'', fs_files = (\<lambda>_. None), fs_dirs = {''/home/u''},
        fs_dir_size = (\<lambda>_. 4096), fs_walk = (\<lambda>_ _. []),
        fs_init_client = (\<lambda>_. None), fs_remote = (\<lambda>_ _ _ _. Inr []) \<rparr>
     ''ab/cd'' (Some 5)) = (''/cd'', False) \<and>
   fs_dirs (snd (check_etag_obj_path \<lparr> cache_dir = ''/home/u/.cache/wandb/artifacts'' \<rparr>
     \<lparr> fs_cwd = ''/home/u'', fs_files = (\<lambda>_. None), fs_dirs = {''/home/u''},
        fs_dir_size = (\<lambda>_. 4096), fs_walk = (\<lambda>_ _. []),
        fs_init_client = (\<lambda>_. None), fs_remote = (\<lambda>_ _ _ _. Inr []) \<rparr>
     ''ab/cd'' (Some 5))) = {''/'', ''/home/u''} \<and>
   fst (check_etag_obj_path \<lparr> cache_dir = ''/home/u/.cache/wandb/artifacts'' \<rparr>
     \<lparr> fs_cwd = ''/home/u'', fs_files = (\<lambda>_. None), fs_dirs = {''/home/u''},
        fs_dir_size = (\<lambda>_. 4096), fs_walk = (\<lambda>_ _. []),
        fs_init_client = (\<lambda>_. None), fs_remote = (\<lambda>_ _ _ _. Inr []) \<rparr>
     ''abc'' (Some 5)) = (''/home/u/.cache/wandb/artifacts/obj/etag/ab/c'', False)"
  by (simp add: check_etag_obj_path_def path_join_def join2_def Let_def isfile_def
      size_is_def getsize_def abspath_def isdir_def mkdir_exists_ok_def dirname_def)

section \<open>References to local directories\<close>

lemma exceeded_objects_1:
  "exceeded_objects 1 =
     ValueError ''Exceeded 1 objects tracked, pass max_objects to add_reference''"
  by (simp add: exceeded_objects_def str_of_int_def str_of_nat.simps)

text \<open>
  C3 on the code. The directory \<open>/data\<close> holds the one file \<open>a.txt\<close> with the five
  bytes \<open>hello\<close>, and \<open>store_path("file:///data")\<close> is called with
  \<open>checksum=True\<close>. \<open>os.walk\<close> yields the bare name \<open>a.txt\<close>, and the loop reads
  size and MD5 from that name, which the operating system resolves against the working
  directory, not against \<open>/data\<close>:

  \<^item> with the working directory \<open>/home/u\<close> the call raises \<open>OSError\<close>, where the
    claim has one entry for \<open>a.txt\<close>;
  \<^item> when \<open>/home/u\<close> holds a file \<open>a.txt\<close> of its own (13 bytes), the entry for
    \<open>file:///data/a.txt\<close> carries the size and the digest of that other file;
  \<^item> for the file \<open>b.txt\<close> in the sub-directory \<open>/data/sub\<close> the call raises
    \<open>OSError\<close> even when the working directory is \<open>/data\<close>;
  \<^item> only with the working directory \<open>/data\<close> itself is the entry of \<open>a.txt\<close> the
    one the claim describes.

  The counter is compared with \<open>>=\<close>: with \<open>max_objects=1\<close> the one file of
  \<open>/data\<close> already raises the error \<open>Exceeded 1 objects\<close>, though the number of
  files does not exceed \<open>max_objects\<close>.
\<close>

theorem local_dir_reads_bare_file_name:
  "LocalFileHandler_store_path example_lib
      \<lparr> fs_cwd = ''/home/u'',
         fs_files = (\<lambda>p. if p = ''/data/a.txt'' then Some ''hello'' else None),
         fs_dirs = {''/data'', ''/data/sub'', ''/home/u''}, fs_dir_size = (\<lambda>_. 4096),
         fs_walk = (\<lambda>followlinks top. if top = ''/data''
                     then [(''/data'', [], [''a.txt''])] else []),
         fs_init_client = (\<lambda>_. None), fs_remote = (\<lambda>_ _ _ _. Inr []) \<rparr>
      ''file:///data'' None True None =
     Inl (OSError ''No such file or directory: a.txt'') \<and>
   LocalFileHandler_store_path example_lib
      \<lparr> fs_cwd = ''/home/u'',
         fs_files = (\<lambda>p. if p = ''/data/a.txt'' then Some ''hello''
                      else if p = ''/home/u/a.txt'' then Some ''other content'' else None),
         fs_dirs = {''/data'', ''/data/sub'', ''/home/u''}, fs_dir_size = (\<lambda>_. 4096),
         fs_walk = (\<lambda>followlinks top. if top = ''/data''
                     then [(''/data'', [], [''a.txt''])] else []),
         fs_init_client = (\<lambda>_. None), fs_remote = (\<lambda>_ _ _ _. Inr []) \<rparr>
      ''file:///data'' None True None =
     Inr [\<lparr> e_path = ''a.txt'', e_ref = Some ''file:///data/a.txt'',
            e_digest = ''md5b64(other content)'', e_birth_artifact_id = None,
            e_size = Some 13, e_extra = [], e_local_path = None \<rparr>] \<and>
   LocalFileHandler_store_path example_lib
      \<lparr> fs_cwd = ''/data'',
         fs_files = (\<lambda>p. if p = ''/data/sub/b.txt'' then Some ''hello'' else None),
         fs_dirs = {''/data'', ''/data/sub'', ''/home/u''}, fs_dir_size = (\<lambda>_. 4096),
         fs_walk = (\<lambda>followlinks top. if top = ''/data''
                     then [(''/data'', [''sub''], []), (''/data/sub'', [], [''b.txt''])] else []),
         fs_init_client = (\<lambda>_. None), fs_remote = (\<lambda>_ _ _ _. Inr []) \<rparr>
      ''file:///data'' None True None =
     Inl (OSError ''No such file or directory: b.txt'') \<and>
   LocalFileHandler_store_path example_lib
      \<lparr> fs_cwd = ''/data'',
         fs_files = (\<lambda>p. if p = ''/data/a.txt'' then Some ''hello'' else None),
         fs_dirs = {''/data'', ''/data/sub'', ''/home/u''}, fs_dir_size = (\<lambda>_. 4096),
         fs_walk = (\<lambda>followlinks top. if top = ''/data''
                     then [(''/data'', [], [''a.txt''])] else []),
         fs_init_client = (\<lambda>_. None), fs_remote = (\<lambda>_ _ _ _. Inr []) \<rparr>
      ''file:///data'' None True None =
     Inr [\<lparr> e_path = ''a.txt'', e_ref = Some ''file:///data/a.txt'',
            e_digest = ''md5b64(hello)'', e_birth_artifact_id = None,
            e_size = Some 5, e_extra = [], e_local_path = None \<rparr>] \<and>
   LocalFileHandler_store_path example_lib
      \<lparr> fs_cwd = ''/data'',
         fs_files = (\<lambda>p. if p = ''/data/a.txt'' then Some ''hello'' else None),
         fs_dirs = {''/data'', ''/data/sub'', ''/home/u''}, fs_dir_size = (\<lambda>_. 4096),
         fs_walk = (\<lambda>followlinks top. if top = ''/data''
                     then [(''/data'', [], [''a.txt''])] else []),
         fs_init_client = (\<lambda>_. None), fs_remote = (\<lambda>_ _ _ _. Inr []) \<rparr>
      ''file:///data'' None True (Some 1) =
     Inl (ValueError ''Exceeded 1 objects tracked, pass max_objects to add_reference'')"
  by (simp add: LocalFileHandler_store_path_def example_lib_def urlparse_plain_def
      scheme_chars_def lower_char_def isdir_def isfile_def abspath_def
      join2_def getsize_def md5_file_b64_def ArtifactManifestEntry_def basename_def
      max_objects_or_default_def DEFAULT_MAX_OBJECTS_def exceeded_objects_1 Let_def)

section \<open>A finalized artifact takes no more entries\<close>

lemma finalize_returns_final:
  "finalize L w0 a0 = (Inr u, a, w1) \<Longrightarrow> a_final a"
  by (auto simp: finalize_def Let_def split: if_splits prod.splits sum.splits option.splits)

lemma final_new_file:
  "a_final a \<Longrightarrow> new_file w a name mode = (Inl (ValueError finalized_message), a, w)"
  by (simp add: new_file_def ensure_can_add_def)

lemma final_add_file:
  "a_final a \<Longrightarrow> add_file L w a local_path name = (Inl (ValueError finalized_message), a, w)"
  by (simp add: add_file_def ensure_can_add_def)

lemma final_add_dir:
  "a_final a \<Longrightarrow> add_dir L w a local_path name = (Inl (ValueError finalized_message), a, w)"
  by (simp add: add_dir_def ensure_can_add_def)

lemma final_add_reference:
  "a_final a \<Longrightarrow>
   add_reference L w a uri name checksum max_objects =
     (Inl (ValueError
        (if url_scheme (urlparse L uri) = []
         then ''References must be URIs. To reference a local file, use file://''
         else finalized_message)), a, w)"
  by (simp add: add_reference_def)

lemma final_apply_op:
  "a_final a \<Longrightarrow> \<exists>msg. apply_op L w a op = (Some (ValueError msg), a, w)"
  by (cases op)
     (simp_all add: final_new_file final_add_file final_add_dir final_add_reference)

lemma final_apply_ops:
  "a_final a \<Longrightarrow>
   snd (apply_ops L w a ops) = (a, w) \<and>
   length (fst (apply_ops L w a ops)) = length ops \<and>
   (\<forall>r \<in> set (fst (apply_ops L w a ops)). \<exists>msg. r = Some (ValueError msg))"
proof (induction ops)
  case Nil
  show ?case by simp
next
  case (Cons op ops)
  from final_apply_op [OF Cons.prems, of L w op]
  obtain msg where one: "apply_op L w a op = (Some (ValueError msg), a, w)"
    by blast
  obtain rs a' w' where rest: "apply_ops L w a ops = (rs, a', w')"
    by (cases "apply_ops L w a ops")
  with Cons.IH [OF Cons.prems] have "a' = a" "w' = w" "length rs = length ops"
      "\<forall>r \<in> set rs. \<exists>msg. r = Some (ValueError msg)"
    by simp_all
  with one rest show ?case by simp
qed

text \<open>
  C7. Let \<open>finalize()\<close> have returned, leaving the artifact \<open>a\<close>. Then \<open>a\<close> is
  final, and in every state \<open>w\<close> of the file system each of \<open>new_file\<close>,
  \<open>add_file\<close>, \<open>add_dir\<close> and \<open>add_reference\<close> raises \<open>ValueError\<close> and leaves
  the artifact exactly as it was (and the file system too): its manifest, with the
  entry map, and its digest are those of \<open>a\<close>. The same holds for every series of
  such calls: each of them raises \<open>ValueError\<close>, and after the series the artifact is
  still \<open>a\<close>, so that the digest computed from its manifest has not changed.
\<close>

theorem finalized_artifact_rejects_additions:
  assumes "finalize L w0 a0 = (Inr u, a, w1)"
  shows "a_final a \<and>
         new_file w a name mode = (Inl (ValueError finalized_message), a, w) \<and>
         add_file L w a local_path fname = (Inl (ValueError finalized_message), a, w) \<and>
         add_dir L w a dir_path dname = (Inl (ValueError finalized_message), a, w) \<and>
         add_reference L w a uri rname checksum max_objects =
           (Inl (ValueError
              (if url_scheme (urlparse L uri) = []
               then ''References must be URIs. To reference a local file, use file://''
               else finalized_message)), a, w) \<and>
         snd (apply_ops L w a ops) = (a, w) \<and>
         length (fst (apply_ops L w a ops)) = length ops \<and>
         (\<forall>r \<in> set (fst (apply_ops L w a ops)). \<exists>msg. r = Some (ValueError msg)) \<and>
         entries (a_manifest (fst (snd (apply_ops L w a ops)))) = entries (a_manifest a) \<and>
         a_digest (fst (snd (apply_ops L w a ops))) = a_digest a \<and>
         digest (md5_hexdigest L) (a_manifest (fst (snd (apply_ops L w a ops)))) =
           digest (md5_hexdigest L) (a_manifest a)"
proof -
  have fin: "a_final a"
    using assms by (rule finalize_returns_final)
  from final_apply_ops [OF fin, of L w ops]
  have ops: "snd (apply_ops L w a ops) = (a, w)"
      "length (fst (apply_ops L w a ops)) = length ops"
      "\<forall>r \<in> set (fst (apply_ops L w a ops)). \<exists>msg. r = Some (ValueError msg)"
    by simp_all
  from ops(1) have same: "fst (snd (apply_ops L w a ops)) = a"
    by simp
  show ?thesis
    using fin ops
    by (simp add: same final_new_file final_add_file final_add_dir final_add_reference)
qed

theorem finalized_artifact_rejects_additions_witness:
  "finalize example_lib
     \<lparr> fs_cwd = ''/home/u'',
        fs_files = (\<lambda>p. if p = ''/data/a.txt'' then Some ''hello'' else None),
        fs_dirs = {''/data'', ''/home/u''}, fs_dir_size = (\<lambda>_. 4096),
        fs_walk = (\<lambda>_ _. []), fs_init_client = (\<lambda>_. None),
        fs_remote = (\<lambda>_ _ _ _. Inr []) \<rparr>
     \<lparr> a_name = ''data'', a_type = ''dataset'', a_final = False,
        a_digest = None,
        a_manifest = \<lparr> entries = [(''a.txt'',
          \<lparr> e_path = ''a.txt'', e_ref = None, e_digest = ''md5b64(hello)'',
            e_birth_artifact_id = None, e_size = Some 5, e_extra = [],
            e_local_path = Some ''/data/a.txt'' \<rparr>)] \<rparr>,
        a_added_new = False, a_artifact_dir = ''/tmp/artifact'',
        a_cache = \<lparr> cache_dir = ''/home/u/.cache/wandb/artifacts'' \<rparr>,
        a_storage_policy = wandb_policy_handler \<rparr> =
     (Inr (),
      \<lparr> a_name = ''data'', a_type = ''dataset'', a_final = True,
        a_digest = Some (''md5hex(wandb-artifact-manifest-v1'' @ [CHR 0x0A] @
                        ''a.txt:md5b64(hello)'' @ [CHR 0x0A] @ '')''),
        a_manifest = \<lparr> entries = [(''a.txt'',
          \<lparr> e_path = ''a.txt'', e_ref = None, e_digest = ''md5b64(hello)'',
            e_birth_artifact_id = None, e_size = Some 5, e_extra = [],
            e_local_path = Some ''/data/a.txt'' \<rparr>)] \<rparr>,
        a_added_new = False, a_artifact_dir = ''/tmp/artifact'',
        a_cache = \<lparr> cache_dir = ''/home/u/.cache/wandb/artifacts'' \<rparr>,
        a_storage_policy = wandb_policy_handler \<rparr>,
      \<lparr> fs_cwd = ''/home/u'',
        fs_files = (\<lambda>p. if p = ''/data/a.txt'' then Some ''hello'' else None),
        fs_dirs = {''/data'', ''/home/u''}, fs_dir_size = (\<lambda>_. 4096),
        fs_walk = (\<lambda>_ _. []), fs_init_client = (\<lambda>_. None),
        fs_remote = (\<lambda>_ _ _ _. Inr []) \<rparr>) \<and>
   add_file example_lib
     \<lparr> fs_cwd = ''/home/u'',
        fs_files = (\<lambda>p. if p = ''/data/a.txt'' then Some ''hello'' else None),
        fs_dirs = {''/data'', ''/home/u''}, fs_dir_size = (\<lambda>_. 4096),
        fs_walk = (\<lambda>_ _. []), fs_init_client = (\<lambda>_. None),
        fs_remote = (\<lambda>_ _ _ _. Inr []) \<rparr>
     \<lparr> a_name = ''data'', a_type = ''dataset'', a_final = True,
        a_digest = Some (''md5hex(wandb-artifact-manifest-v1'' @ [CHR 0x0A] @
                        ''a.txt:md5b64(hello)'' @ [CHR 0x0A] @ '')''),
        a_manifest = \<lparr> entries = [(''a.txt'',
          \<lparr> e_path = ''a.txt'', e_ref = None, e_digest = ''md5b64(hello)'',
            e_birth_artifact_id = None, e_size = Some 5, e_extra = [],
            e_local_path = Some ''/data/a.txt'' \<rparr>)] \<rparr>,
        a_added_new = False, a_artifact_dir = ''/tmp/artifact'',
        a_cache = \<lparr> cache_dir = ''/home/u/.cache/wandb/artifacts'' \<rparr>,
        a_storage_policy = wandb_policy_handler \<rparr> ''/data/a.txt'' (Some ''b.txt'') =
     (Inl (ValueError finalized_message),
      \<lparr> a_name = ''data'', a_type = ''dataset'', a_final = True,
        a_digest = Some (''md5hex(wandb-artifact-manifest-v1'' @ [CHR 0x0A] @
                        ''a.txt:md5b64(hello)'' @ [CHR 0x0A] @ '')''),
        a_manifest = \<lparr> entries = [(''a.txt'',
          \<lparr> e_path = ''a.txt'', e_ref = None, e_digest = ''md5b64(hello)'',
            e_birth_artifact_id = None, e_size = Some 5, e_extra = [],
            e_local_path = Some ''/data/a.txt'' \<rparr>)] \<rparr>,
        a_added_new = False, a_artifact_dir = ''/tmp/artifact'',
        a_cache = \<lparr> cache_dir = ''/home/u/.cache/wandb/artifacts'' \<rparr>,
        a_storage_policy = wandb_policy_handler \<rparr>,
      \<lparr> fs_cwd = ''/home/u'',
        fs_files = (\<lambda>p. if p = ''/data/a.txt'' then Some ''hello'' else None),
        fs_dirs = {''/data'', ''/home/u''}, fs_dir_size = (\<lambda>_. 4096),
        fs_walk = (\<lambda>_ _. []), fs_init_client = (\<lambda>_. None),
        fs_remote = (\<lambda>_ _ _ _. Inr []) \<rparr>) \<and>
   apply_ops example_lib
     \<lparr> fs_cwd = ''/home/u'',
        fs_files = (\<lambda>p. if p = ''/data/a.txt'' then Some ''hello'' else None),
        fs_dirs = {''/data'', ''/home/u''}, fs_dir_size = (\<lambda>_. 4096),
        fs_walk = (\<lambda>_ _. []), fs_init_client = (\<lambda>_. None),
        fs_remote = (\<lambda>_ _ _ _. Inr []) \<rparr>
     \<lparr> a_name = ''data'', a_type = ''dataset'', a_final = True,
        a_digest = Some (''md5hex(wandb-artifact-manifest-v1'' @ [CHR 0x0A] @
                        ''a.txt:md5b64(hello)'' @ [CHR 0x0A] @ '')''),
        a_manifest = \<lparr> entries = [(''a.txt'',
          \<lparr> e_path = ''a.txt'', e_ref = None, e_digest = ''md5b64(hello)'',
            e_birth_artifact_id = None, e_size = Some 5, e_extra = [],
            e_local_path = Some ''/data/a.txt'' \<rparr>)] \<rparr>,
        a_added_new = False, a_artifact_dir = ''/tmp/artifact'',
        a_cache = \<lparr> cache_dir = ''/home/u/.cache/wandb/artifacts'' \<rparr>,
        a_storage_policy = wandb_policy_handler \<rparr>
     [NewFile ''c.txt'' ''w'', AddFile ''/data/a.txt'' (Some ''b.txt''), AddDir ''/data'' None,
      AddReference ''file:///data/a.txt'' None True None, AddReference ''a.txt'' None True None] =
     ([Some (ValueError finalized_message), Some (ValueError finalized_message),
       Some (ValueError finalized_message), Some (ValueError finalized_message),
       Some (ValueError ''References must be URIs. To reference a local file, use file://'')],
      \<lparr> a_name = ''data'', a_type = ''dataset'', a_final = True,
        a_digest = Some (''md5hex(wandb-artifact-manifest-v1'' @ [CHR 0x0A] @
                        ''a.txt:md5b64(hello)'' @ [CHR 0x0A] @ '')''),
        a_manifest = \<lparr> entries = [(''a.txt'',
          \<lparr> e_path = ''a.txt'', e_ref = None, e_digest = ''md5b64(hello)'',
            e_birth_artifact_id = None, e_size = Some 5, e_extra = [],
            e_local_path = Some ''/data/a.txt'' \<rparr>)] \<rparr>,
        a_added_new = False, a_artifact_dir = ''/tmp/artifact'',
        a_cache = \<lparr> cache_dir = ''/home/u/.cache/wandb/artifacts'' \<rparr>,
        a_storage_policy = wandb_policy_handler \<rparr>,
      \<lparr> fs_cwd = ''/home/u'',
        fs_files = (\<lambda>p. if p = ''/data/a.txt'' then Some ''hello'' else None),
        fs_dirs = {''/data'', ''/home/u''}, fs_dir_size = (\<lambda>_. 4096),
        fs_walk = (\<lambda>_ _. []), fs_init_client = (\<lambda>_. None),
        fs_remote = (\<lambda>_ _ _ _. Inr []) \<rparr>)"
  using finalized_artifact_rejects_additions
    [where L = example_lib
       and ?w0.0 = "\<lparr> fs_cwd = ''/home/u'',
        fs_files = (\<lambda>p. if p = ''/data/a.txt'' then Some ''hello'' else None),
        fs_dirs = {''/data'', ''/home/u''}, fs_dir_size = (\<lambda>_. 4096),
        fs_walk = (\<lambda>_ _. []), fs_init_client = (\<lambda>_. None),
        fs_remote = (\<lambda>_ _ _ _. Inr []) \<rparr>"
       and ?a0.0 = "\<lparr> a_name = ''data'', a_type = ''dataset'', a_final = False,
        a_digest = None,
        a_manifest = \<lparr> entries = [(''a.txt'',
          \<lparr> e_path = ''a.txt'', e_ref = None, e_digest = ''md5b64(hello)'',
            e_birth_artifact_id = None, e_size = Some 5, e_extra = [],
            e_local_path = Some ''/data/a.txt'' \<rparr>)] \<rparr>,
        a_added_new = False, a_artifact_dir = ''/tmp/artifact'',
        a_cache = \<lparr> cache_dir = ''/home/u/.cache/wandb/artifacts'' \<rparr>,
        a_storage_policy = wandb_policy_handler \<rparr>"
       and u = "()"
       and a = "\<lparr> a_name = ''data'', a_type = ''dataset'', a_final = True,
        a_digest = Some (''md5hex(wandb-artifact-manifest-v1'' @ [CHR 0x0A] @
                        ''a.txt:md5b64(hello)'' @ [CHR 0x0A] @ '')''),
        a_manifest = \<lparr> entries = [(''a.txt'',
          \<lparr> e_path = ''a.txt'', e_ref = None, e_digest = ''md5b64(hello)'',
            e_birth_artifact_id = None, e_size = Some 5, e_extra = [],
            e_local_path = Some ''/data/a.txt'' \<rparr>)] \<rparr>,
        a_added_new = False, a_artifact_dir = ''/tmp/artifact'',
        a_cache = \<lparr> cache_dir = ''/home/u/.cache/wandb/artifacts'' \<rparr>,
        a_storage_policy = wandb_policy_handler \<rparr>"
       and ?w1.0 = "\<lparr> fs_cwd = ''/home/u'',
        fs_files = (\<lambda>p. if p = ''/data/a.txt'' then Some ''hello'' else None),
        fs_dirs = {''/data'', ''/home/u''}, fs_dir_size = (\<lambda>_. 4096),
        fs_walk = (\<lambda>_ _. []), fs_init_client = (\<lambda>_. None),
        fs_remote = (\<lambda>_ _ _ _. Inr []) \<rparr>"
       and w = "\<lparr> fs_cwd = ''/home/u'',
        fs_files = (\<lambda>p. if p = ''/data/a.txt'' then Some ''hello'' else None),
        fs_dirs = {''/data'', ''/home/u''}, fs_dir_size = (\<lambda>_. 4096),
        fs_walk = (\<lambda>_ _. []), fs_init_client = (\<lambda>_. None),
        fs_remote = (\<lambda>_ _ _ _. Inr []) \<rparr>"
       and local_path = "''/data/a.txt''" and fname = "Some ''b.txt''"
       and ops = "[NewFile ''c.txt'' ''w'', AddFile ''/data/a.txt'' (Some ''b.txt''),
                   AddDir ''/data'' None, AddReference ''file:///data/a.txt'' None True None,
                   AddReference ''a.txt'' None True None]"]
  by (simp add: finalize_def digest_def hasher_update_def manifest_header_def
      manifest_line_def newline_def example_lib_def Let_def
      new_file_def add_file_def add_dir_def add_reference_def ensure_can_add_def
      urlparse_plain_def scheme_chars_def lower_char_def)

section \<open>Dispatch on the scheme of a reference\<close>

text \<open>
  What holds of \<open>MultiHandler.store_path\<close> on the code, for a URI whose scheme has no
  registered handler: with a default handler the call is the call of
  \<open>store_path\<close> on the default handler; without one it raises the
  \<open>AttributeError\<close> of \<open>None.store_path\<close>.
\<close>

lemma store_path_dispatches_to_default:
  assumes "dict_get (mh_handlers mh) (Some (url_scheme (urlparse L path))) = None"
    and "mh_default_handler mh = Some h"
  shows "MultiHandler_store_path L w mh path name checksum max_objects =
           (fst (handler_store_path L w h path name checksum max_objects),
            mh\<lparr> mh_default_handler :=
                  Some (snd (handler_store_path L w h path name checksum max_objects)) \<rparr>)"
  using assms by (simp add: MultiHandler_store_path_def handlers_is_not_None_def Let_def)

lemma store_path_without_default:
  assumes "dict_get (mh_handlers mh) (Some (url_scheme (urlparse L path))) = None"
    and "mh_default_handler mh = None"
  shows "MultiHandler_store_path L w mh path name checksum max_objects =
           (Inl none_has_no_store_path, mh)"
  using assms by (simp add: MultiHandler_store_path_def handlers_is_not_None_def Let_def)

text \<open>
  C8 on the code, for
  \<open>MultiHandler(handlers=[LocalFileHandler()]).store_path(artifact, "ftp://host/x.bin", name="x.bin")\<close>:
  no handler is registered for the scheme \<open>ftp\<close> and no default handler is
  configured. The inner test \<open>self._handlers is not None\<close> is true, so the code calls
  \<open>store_path\<close> on the default handler \<open>None\<close> and raises \<open>AttributeError\<close>,
  where the claim (and \<open>load_path\<close>, which tests \<open>self._default_handler\<close>) has the
  \<open>ValueError\<close> \<open>No storage handler registered for scheme "ftp"\<close>. With the
  default handler \<open>TrackingHandler()\<close> the same call is dispatched to it.
\<close>

theorem store_path_no_default_attribute_error:
  "MultiHandler_store_path example_lib w
      (MultiHandler [LocalFileHandler ''file''] None)
      ''ftp://host/x.bin'' (Some ''x.bin'') True None =
     (Inl none_has_no_store_path, MultiHandler [LocalFileHandler ''file''] None) \<and>
   none_has_no_store_path \<noteq> no_handler_registered ''ftp'' \<and>
   url_scheme (urlparse example_lib ''ftp://host/x.bin'') = ''ftp'' \<and>
   dict_get (mh_handlers (MultiHandler [LocalFileHandler ''file''] None)) (Some ''ftp'') = None \<and>
   mh_default_handler (MultiHandler [LocalFileHandler ''file''] None) = None \<and>
   MultiHandler_store_path example_lib w
      (MultiHandler [LocalFileHandler ''file''] (Some (TrackingHandler None)))
      ''ftp://host/x.bin'' (Some ''x.bin'') True None =
     (Inr [\<lparr> e_path = ''x.bin'', e_ref = Some ''ftp://host/x.bin'',
             e_digest = ''ftp://host/x.bin'', e_birth_artifact_id = None, e_size = None,
             e_extra = [], e_local_path = None \<rparr>],
      MultiHandler [LocalFileHandler ''file''] (Some (TrackingHandler None)))"
  by (simp add: MultiHandler_store_path_def MultiHandler_def handlers_is_not_None_def
      dict_get_def example_lib_def urlparse_plain_def scheme_chars_def lower_char_def
      none_has_no_store_path_def no_handler_registered_def TrackingHandler_store_path_def
      reference_entry_def str_or_def Let_def)

section \<open>References stored without a checksum\<close>




section \<open>The tfevents file-name filter\<close>

lemma list_index_None: "list_index xs x = None \<longleftrightarrow> x \<notin> set xs"
  by (induction xs) auto

lemma list_index_Some:
  "list_index xs x = Some k \<longleftrightarrow>
   k < length xs \<and> xs ! k = x \<and> (\<forall>j<k. xs ! j \<noteq> x)"
proof (induction xs arbitrary: k)
  case Nil
  then show ?case by simp
next
  case (Cons y ys)
  show ?case
  proof (cases "y = x")
    case True
    then show ?thesis by (cases k) auto
  next
    case False
    show ?thesis
    proof (cases k)
      case 0
      with False show ?thesis by auto
    next
      case (Suc k')
      have "(\<forall>j<Suc k'. (y # ys) ! j \<noteq> x) \<longleftrightarrow> (\<forall>j<k'. ys ! j \<noteq> x)"
        using False by (auto simp: less_Suc_eq_0_disj)
      with Suc False Cons.IH [of k'] show ?thesis by auto
    qed
  qed
qed

lemma hostname_loop_enumerate:
  "hostname_loop comps idx (enumerate n parts) \<longleftrightarrow>
   (\<forall>i<length parts. idx + 2 + n + i < length comps \<and>
                      comps ! (idx + 2 + n + i) = parts ! i)"
proof (induction parts arbitrary: n)
  case Nil
  then show ?case by simp
next
  case (Cons p ps)
  have split: "(\<forall>i<length (p # ps). idx + 2 + n + i < length comps \<and>
                  comps ! (idx + 2 + n + i) = (p # ps) ! i) \<longleftrightarrow>
               (idx + 2 + n < length comps \<and> comps ! (idx + 2 + n) = p) \<and>
               (\<forall>i<length ps. idx + 2 + Suc n + i < length comps \<and>
                  comps ! (idx + 2 + Suc n + i) = ps ! i)"
    by (auto simp: less_Suc_eq_0_disj)
  show ?case
    unfolding split using Cons.IH [of "Suc n"]
    by (auto simp: list_get_def)
qed

text \<open>
  C6. On the empty path the filter raises \<open>ValueError\<close>. On every other path it
  returns a boolean, and returns \<open>True\<close> exactly when the base name does not end with
  \<open>.profile_empty\<close>, some dot-separated component is \<open>tfevents\<close> (\<open>k\<close> is the
  position of the first one), the component right after it exists and parses as an
  integer \<open>t\<close> with \<open>start_time \<le> t\<close>, and every dot-separated component of the
  host name equals the file-name component at the same offset from position \<open>k + 2\<close>.
\<close>

theorem tfevents_file_filter:
  "(path = [] \<longrightarrow>
      is_tfevents_file_created_by int_of path hostname start_time =
      Inl (ValueError ''Path must be a nonempty string'')) \<and>
   (path \<noteq> [] \<longrightarrow>
      is_tfevents_file_created_by int_of path hostname start_time =
      Inr (\<not> endswith (basename path) ''.profile_empty'' \<and>
           (\<exists>k. k < length (split_on CHR ''.'' (basename path)) \<and>
                split_on CHR ''.'' (basename path) ! k = ''tfevents'' \<and>
                (\<forall>j<k. split_on CHR ''.'' (basename path) ! j \<noteq> ''tfevents'') \<and>
                k + 1 < length (split_on CHR ''.'' (basename path)) \<and>
                (\<exists>t. int_of (split_on CHR ''.'' (basename path) ! (k + 1)) = Some t \<and>
                     start_time \<le> of_int t) \<and>
                (\<forall>i<length (split_on CHR ''.'' hostname).
                     k + 2 + i < length (split_on CHR ''.'' (basename path)) \<and>
                     split_on CHR ''.'' (basename path) ! (k + 2 + i) =
                     split_on CHR ''.'' hostname ! i))))"
proof (intro conjI impI)
  assume "path = []"
  then show "is_tfevents_file_created_by int_of path hostname start_time =
      Inl (ValueError ''Path must be a nonempty string'')"
    by (simp add: is_tfevents_file_created_by_def)
next
  assume ne: "path \<noteq> []"
  define comps where "comps = split_on CHR ''.'' (basename path)"
  define hparts where "hparts = split_on CHR ''.'' hostname"
  define good where "good k \<longleftrightarrow>
       k < length comps \<and> comps ! k = ''tfevents'' \<and> (\<forall>j<k. comps ! j \<noteq> ''tfevents'') \<and>
       k + 1 < length comps \<and>
       (\<exists>t. int_of (comps ! (k + 1)) = Some t \<and> start_time \<le> of_int t) \<and>
       (\<forall>i<length hparts. k + 2 + i < length comps \<and> comps ! (k + 2 + i) = hparts ! i)"
    for k
  have first_unique: "k = k'"
    if "list_index comps ''tfevents'' = Some k" and "good k'" for k k'
  proof -
    have a: "k < length comps" "comps ! k = ''tfevents''" "\<forall>j<k. comps ! j \<noteq> ''tfevents''"
      using that(1) by (simp_all add: list_index_Some)
    have b: "k' < length comps" "comps ! k' = ''tfevents''" "\<forall>j<k'. comps ! j \<noteq> ''tfevents''"
      using that(2) by (simp_all add: good_def)
    show ?thesis
      using a b by (metis linorder_neqE_nat)
  qed
  have result: "is_tfevents_file_created_by int_of path hostname start_time =
      Inr (\<not> endswith (basename path) ''.profile_empty'' \<and> (\<exists>k. good k))"
  proof (cases "endswith (basename path) ''.profile_empty''")
    case True
    with ne show ?thesis by (simp add: is_tfevents_file_created_by_def)
  next
    case notprof: False
    show ?thesis
    proof (cases "list_index comps ''tfevents''")
      case None
      then have "''tfevents'' \<notin> set comps"
        by (simp add: list_index_None)
      then have "\<not> (\<exists>k. good k)"
        unfolding good_def by (metis Suc_lessD add.commute nth_mem plus_1_eq_Suc)
      with None ne notprof show ?thesis
        by (simp add: is_tfevents_file_created_by_def comps_def)
    next
      case (Some k)
      have first: "k < length comps" "comps ! k = ''tfevents''"
                  "\<forall>j<k. comps ! j \<noteq> ''tfevents''"
        using Some by (simp_all add: list_index_Some)
      have host: "hostname_loop comps k (enumerate 0 hparts) \<longleftrightarrow>
            (\<forall>i<length hparts. k + 2 + i < length comps \<and> comps ! (k + 2 + i) = hparts ! i)"
        using hostname_loop_enumerate [of comps k 0 hparts] by simp
      have only_k: "(\<exists>k'. good k') \<longleftrightarrow> good k"
        using first_unique [OF Some] by auto
      have at_k: "is_tfevents_file_created_by int_of path hostname start_time =
            Inr (good k)"
      proof (cases "hostname_loop comps k (enumerate 0 hparts)")
        case False
        then have "\<not> good k" using host by (simp add: good_def)
        with False Some ne notprof show ?thesis
          by (simp add: is_tfevents_file_created_by_def comps_def hparts_def)
      next
        case hostok: True
        show ?thesis
        proof (cases "k + 1 < length comps")
          case False
          then have "\<not> good k" by (simp add: good_def)
          with False hostok Some ne notprof show ?thesis
            by (simp add: is_tfevents_file_created_by_def comps_def hparts_def
                list_get_def)
        next
          case inrange: True
          show ?thesis
          proof (cases "int_of (comps ! (k + 1))")
            case None
            then have "\<not> good k" by (simp add: good_def)
            with None inrange hostok Some ne notprof show ?thesis
              by (simp add: is_tfevents_file_created_by_def comps_def hparts_def
                  list_get_def)
          next
            case (Some t)
            have "good k \<longleftrightarrow> start_time \<le> of_int t"
              using Some first inrange hostok host by (simp add: good_def)
            with Some inrange hostok \<open>list_index comps ''tfevents'' = Some k\<close> ne notprof
            show ?thesis
              by (simp add: is_tfevents_file_created_by_def comps_def hparts_def
                  list_get_def)
          qed
        qed
      qed
      with only_k notprof show ?thesis by simp
    qed
  qed
  show "is_tfevents_file_created_by int_of path hostname start_time =
      Inr (\<not> endswith (basename path) ''.profile_empty'' \<and>
           (\<exists>k. k < length (split_on CHR ''.'' (basename path)) \<and>
                split_on CHR ''.'' (basename path) ! k = ''tfevents'' \<and>
                (\<forall>j<k. split_on CHR ''.'' (basename path) ! j \<noteq> ''tfevents'') \<and>
                k + 1 < length (split_on CHR ''.'' (basename path)) \<and>
                (\<exists>t. int_of (split_on CHR ''.'' (basename path) ! (k + 1)) = Some t \<and>
                     start_time \<le> of_int t) \<and>
                (\<forall>i<length (split_on CHR ''.'' hostname).
                     k + 2 + i < length (split_on CHR ''.'' (basename path)) \<and>
                     split_on CHR ''.'' (basename path) ! (k + 2 + i) =
                     split_on CHR ''.'' hostname ! i)))"
    using result unfolding good_def comps_def hparts_def by simp
qed

theorem tfevents_file_filter_witness:
  "is_tfevents_file_created_by decimal_int
     ''logs/train/events.out.tfevents.1600000000.node7.cluster.4242.v2''
     ''node7.cluster'' 1500000000 = Inr True \<and>
   is_tfevents_file_created_by decimal_int
     ''logs/train/events.out.tfevents.1600000000.node7.cluster.4242.v2''
     ''node8.cluster'' 1500000000 = Inr False \<and>
   is_tfevents_file_created_by decimal_int
     ''logs/train/events.out.tfevents.1600000000.node7.cluster.4242.v2''
     ''node7.cluster'' 1700000000 = Inr False \<and>
   is_tfevents_file_created_by decimal_int [] ''node7.cluster'' 1500000000 =
     Inl (ValueError ''Path must be a nonempty string'')"
  using tfevents_file_filter
    [of "''logs/train/events.out.tfevents.1600000000.node7.cluster.4242.v2''"
        decimal_int "''node7.cluster''" 1500000000]
  by (simp add: is_tfevents_file_created_by_def basename_def endswith_def list_get_def
      decimal_int_def digit_val_def)

section \<open>Flap protection of the agent\<close>











section \<open>The two-stage stop command\<close>

lemma dict_get_dict_set_same:
  "dict_get d k = Some v0 \<Longrightarrow> dict_get (dict_set k v d) k = Some v"
  by (induction d) (auto simp: dict_get_def)

lemma dict_get_dict_set_other:
  "k' \<noteq> k \<Longrightarrow> dict_get (dict_set k v d) k' = dict_get d k'"
  by (induction d) (auto simp: dict_get_def)

lemma set_dict_set:
  "kv \<in> set (dict_set k v d) \<Longrightarrow> kv \<in> set d \<or> kv = (k, v)"
  by (induction d) (auto split: if_splits)

lemma dict_get_in_set: "dict_get d k = Some v \<Longrightarrow> (k, v) \<in> set d"
  by (simp add: dict_get_def map_of_SomeD)

lemma terminate_started:
  "\<not> p_gone p \<Longrightarrow>
   AgentProcess_terminate w p = Inr (log_call w (terminate_call w p) p)"
  by (simp add: AgentProcess_terminate_def terminate_call_def)

lemma kill_started:
  "started_child p \<Longrightarrow> p_is_popen p \<or> w_platform w \<noteq> Windows \<Longrightarrow>
   \<exists>c. is_kill c \<and> AgentProcess_kill w p = Inr ((log_call w c p)\<lparr> p_proc_killed := p_proc_killed p \<or> \<not> p_is_popen p \<rparr>) \<and>
       (p_is_popen p \<longrightarrow> c = Popen_kill) \<and>
       (\<not> p_is_popen p \<longrightarrow> (\<exists>pid. p_pid p = Some pid \<and> c = Os_kill_SIGKILL pid))"
  by (cases "p_is_popen p")
     (auto simp: started_child_def AgentProcess_kill_def is_kill_def log_call_def)

lemma kill_windows_function_child:
  "\<not> p_is_popen p \<Longrightarrow> p_pid p = Some pid \<Longrightarrow> pid \<noteq> 0 \<Longrightarrow> w_platform w = Windows \<Longrightarrow>
   AgentProcess_kill w p = Inl signal_has_no_SIGKILL"
  by (simp add: AgentProcess_kill_def)

lemma command_stop_agent:
  "snd (command_stop w run_id a) =
     (case dict_get (run_processes a) run_id of
        None \<Rightarrow> a
      | Some proc \<Rightarrow>
          (case p_last_sigterm_time proc of
             None \<Rightarrow>
               a\<lparr> run_processes := dict_set run_id
                    (case AgentProcess_terminate w
                            (proc\<lparr> p_last_sigterm_time := Some (w_stopwatch w) \<rparr>) of
                       Inl _ \<Rightarrow> proc\<lparr> p_last_sigterm_time := Some (w_stopwatch w) \<rparr>
                     | Inr p' \<Rightarrow> p')
                    (run_processes a) \<rparr>
           | Some t \<Rightarrow>
               if t + kill_delay a < w_stopwatch w then
                 (case AgentProcess_kill w proc of
                    Inl _ \<Rightarrow> a
                  | Inr p' \<Rightarrow> a\<lparr> run_processes := dict_set run_id p' (run_processes a) \<rparr>)
               else a))"
  by (simp add: command_stop_def Let_def split: option.splits sum.splits)

lemma process_stop_command_agent:
  "snd (process_stop_command w run_id a) = snd (command_stop w run_id a)"
  by (simp add: process_stop_command_def split: prod.splits sum.splits)

text \<open>
  In the log of a child, every kill request comes after a terminate request that is
  more than \<open>kd\<close> seconds older.
\<close>

definition kill_after_terminate :: "real \<Rightarrow> (real \<times> child_call) list \<Rightarrow> bool" where
  "kill_after_terminate kd calls \<longleftrightarrow>
     (\<forall>i<length calls. is_kill (snd (calls ! i)) \<longrightarrow>
        (\<exists>j<i. is_terminate (snd (calls ! j)) \<and> fst (calls ! j) + kd < fst (calls ! i)))"

definition stop_inv :: "real \<Rightarrow> agent_process \<Rightarrow> bool" where
  "stop_inv kd p \<longleftrightarrow>
     kill_after_terminate kd (p_calls p) \<and>
     (p_last_sigterm_time p = None \<and> p_calls p = [] \<or>
      p_gone p \<and> p_calls p = [] \<or>
      (\<exists>t0 c0 later. p_last_sigterm_time p = Some t0 \<and> is_terminate c0 \<and>
                      p_calls p = (t0, c0) # later))"

lemma kill_after_terminate_snoc:
  assumes "kill_after_terminate kd cs" and "cs = (t0, c0) # later" and "is_terminate c0"
    and "t0 + kd < t"
  shows "kill_after_terminate kd (cs @ [(t, c)])"
  unfolding kill_after_terminate_def
proof (intro allI impI)
  fix i
  assume i: "i < length (cs @ [(t, c)])"
    and k: "is_kill (snd ((cs @ [(t, c)]) ! i))"
  show "\<exists>j<i. is_terminate (snd ((cs @ [(t, c)]) ! j)) \<and>
              fst ((cs @ [(t, c)]) ! j) + kd < fst ((cs @ [(t, c)]) ! i)"
  proof (cases "i < length cs")
    case True
    then have same: "(cs @ [(t, c)]) ! i = cs ! i"
      by (simp add: nth_append)
    with k assms(1) True obtain j where j: "j < i"
      "is_terminate (snd (cs ! j))" "fst (cs ! j) + kd < fst (cs ! i)"
      unfolding kill_after_terminate_def by metis
    from j(1) True have "(cs @ [(t, c)]) ! j = cs ! j"
      by (simp add: nth_append)
    with j same show ?thesis by metis
  next
    case False
    with i have last: "i = length cs" by simp
    then have at_i: "(cs @ [(t, c)]) ! i = (t, c)"
      by simp
    have pos: "0 < i" using last assms(2) by simp
    have "cs ! 0 = (t0, c0)" using assms(2) by simp
    then have at_0: "(cs @ [(t, c)]) ! 0 = (t0, c0)"
      using assms(2) by (simp add: nth_append)
    show ?thesis
      using at_i at_0 pos assms(3,4) by (metis fst_conv snd_conv)
  qed
qed

lemma is_kill_not_terminate: "is_terminate c \<Longrightarrow> \<not> is_kill c"
  by (cases c) (simp_all add: is_kill_def is_terminate_def)

lemma is_terminate_terminate_call: "is_terminate (terminate_call w p)"
  by (simp add: terminate_call_def is_terminate_def)

lemma stop_inv_terminate:
  assumes "p_last_sigterm_time p = None" and "stop_inv kd p"
  shows "stop_inv kd
           (case AgentProcess_terminate w (p\<lparr> p_last_sigterm_time := Some (w_stopwatch w) \<rparr>) of
              Inl _ \<Rightarrow> p\<lparr> p_last_sigterm_time := Some (w_stopwatch w) \<rparr> | Inr p' \<Rightarrow> p')"
proof (cases "p_gone p")
  case True
  with assms show ?thesis
    by (auto simp: stop_inv_def AgentProcess_terminate_def)
next
  case False
  with assms have empty: "p_calls p = []"
    by (auto simp: stop_inv_def)
  have single: "kill_after_terminate kd [(w_stopwatch w, terminate_call w p)]"
    using is_kill_not_terminate [OF is_terminate_terminate_call [of w p]]
    by (simp add: kill_after_terminate_def)
  have "\<not> p_gone (p\<lparr> p_last_sigterm_time := Some (w_stopwatch w) \<rparr>)"
    using False by simp
  from terminate_started [OF this, where w = w]
  have "AgentProcess_terminate w (p\<lparr> p_last_sigterm_time := Some (w_stopwatch w) \<rparr>) =
      Inr (p\<lparr> p_last_sigterm_time := Some (w_stopwatch w),
               p_calls := [(w_stopwatch w, terminate_call w p)] \<rparr>)"
    using empty by (simp add: log_call_def terminate_call_def)
  with single show ?thesis
    by (simp add: stop_inv_def is_terminate_terminate_call)
qed

lemma kill_result_cases:
  "(case AgentProcess_kill w p of Inl _ \<Rightarrow> p | Inr p' \<Rightarrow> p') = p \<or>
   (\<exists>c. \<not> p_gone p \<and>
        (case AgentProcess_kill w p of Inl _ \<Rightarrow> p | Inr p' \<Rightarrow> p') =
        (log_call w c p)\<lparr> p_proc_killed := p_proc_killed p \<or> \<not> p_is_popen p \<rparr>)"
  by (cases "p_is_popen p"; cases "p_pid p"; cases "p_gone p"; cases "w_platform w")
     (auto simp: AgentProcess_kill_def log_call_def)

lemma stop_inv_kill:
  assumes "p_last_sigterm_time p = Some t0" and "t0 + kd < w_stopwatch w"
    and "stop_inv kd p"
  shows "stop_inv kd (case AgentProcess_kill w p of Inl _ \<Rightarrow> p | Inr p' \<Rightarrow> p')"
proof -
  consider "(case AgentProcess_kill w p of Inl _ \<Rightarrow> p | Inr p' \<Rightarrow> p') = p"
    | c where "\<not> p_gone p"
      "(case AgentProcess_kill w p of Inl _ \<Rightarrow> p | Inr p' \<Rightarrow> p') =
       (log_call w c p)\<lparr> p_proc_killed := p_proc_killed p \<or> \<not> p_is_popen p \<rparr>"
    using kill_result_cases [where w = w and p = p] by blast
  then show ?thesis
  proof cases
    case 1
    with assms(3) show ?thesis by simp
  next
    case 2
    from assms(1,3) 2(1) obtain c0 later where first: "is_terminate c0"
        "p_calls p = (t0, c0) # later"
      by (auto simp: stop_inv_def)
    have "kill_after_terminate kd (p_calls p)"
      using assms(3) by (simp add: stop_inv_def)
    then have "kill_after_terminate kd (p_calls p @ [(w_stopwatch w, c)])"
      using first(2) first(1) assms(2) by (rule kill_after_terminate_snoc)
    with 2 first assms(1) show ?thesis
      by (simp add: stop_inv_def log_call_def)
  qed
qed


lemma stop_inv_command_stop:
  assumes "\<forall>kv \<in> set (run_processes a). stop_inv (kill_delay a) (snd kv)"
  shows "(\<forall>kv \<in> set (run_processes (snd (command_stop w run_id a))).
            stop_inv (kill_delay a) (snd kv)) \<and>
         kill_delay (snd (command_stop w run_id a)) = kill_delay a"
proof (cases "dict_get (run_processes a) run_id")
  case None
  with assms show ?thesis by (simp add: command_stop_agent)
next
  case (Some proc)
  then have inv: "stop_inv (kill_delay a) proc"
    using assms dict_get_in_set by fastforce
  show ?thesis
  proof (cases "p_last_sigterm_time proc")
    case None
    define proc2 where "proc2 =
      (case AgentProcess_terminate w (proc\<lparr> p_last_sigterm_time := Some (w_stopwatch w) \<rparr>) of
         Inl _ \<Rightarrow> proc\<lparr> p_last_sigterm_time := Some (w_stopwatch w) \<rparr> | Inr p' \<Rightarrow> p')"
    have "stop_inv (kill_delay a) proc2"
      unfolding proc2_def using None inv by (rule stop_inv_terminate)
    moreover have "snd (command_stop w run_id a) =
        a\<lparr> run_processes := dict_set run_id proc2 (run_processes a) \<rparr>"
      using Some None by (simp add: command_stop_agent proc2_def)
    ultimately show ?thesis
      using assms set_dict_set by fastforce
  next
    case (Some t0)
    show ?thesis
    proof (cases "t0 + kill_delay a < w_stopwatch w")
      case False
      with Some \<open>dict_get (run_processes a) run_id = Some proc\<close> assms show ?thesis
        by (simp add: command_stop_agent)
    next
      case True
      show ?thesis
      proof (cases "AgentProcess_kill w proc")
        case (Inl e)
        with Some True \<open>dict_get (run_processes a) run_id = Some proc\<close> assms show ?thesis
          by (simp add: command_stop_agent)
      next
        case (Inr proc2)
        have "stop_inv (kill_delay a)
                (case AgentProcess_kill w proc of Inl _ \<Rightarrow> proc | Inr p' \<Rightarrow> p')"
          using Some True inv by (rule stop_inv_kill)
        then have "stop_inv (kill_delay a) proc2"
          by (simp add: Inr)
        moreover have "snd (command_stop w run_id a) =
            a\<lparr> run_processes := dict_set run_id proc2 (run_processes a) \<rparr>"
          using Some True Inr \<open>dict_get (run_processes a) run_id = Some proc\<close>
          by (simp add: command_stop_agent)
        ultimately show ?thesis
          using assms set_dict_set by fastforce
      qed
    qed
  qed
qed

lemma stop_inv_stop_commands:
  "\<forall>kv \<in> set (run_processes a). stop_inv (kill_delay a) (snd kv) \<Longrightarrow>
   \<forall>kv \<in> set (run_processes (stop_commands w cmds a)). stop_inv (kill_delay a) (snd kv)"
proof (induction cmds arbitrary: a)
  case Nil
  then show ?case by simp
next
  case (Cons cmd cmds)
  obtain now run_id where cmd: "cmd = (now, run_id)" by (cases cmd)
  define a1 where "a1 = snd (command_stop (w\<lparr> w_stopwatch := now \<rparr>) run_id a)"
  have step: "\<forall>kv \<in> set (run_processes a1). stop_inv (kill_delay a) (snd kv)"
    and kd: "kill_delay a1 = kill_delay a"
    using stop_inv_command_stop [OF Cons.prems, of "w\<lparr> w_stopwatch := now \<rparr>" run_id]
    by (simp_all add: a1_def)
  from Cons.IH [of a1] step kd
  have "\<forall>kv \<in> set (run_processes (stop_commands w cmds a1)). stop_inv (kill_delay a) (snd kv)"
    by simp
  then show ?case by (simp add: cmd a1_def process_stop_command_agent)
qed

text \<open>
  What holds of the stop command on the code. Let \<open>run_id\<close> name a child \<open>p\<close> that
  was started and is known to the operating system, and let \<open>now\<close> be the stopwatch
  reading of a stop command. If \<open>last_sigterm_time\<close> is \<open>None\<close>, the command sets it
  to \<open>now\<close> and makes one request to the child: for a subprocess \<open>CTRL_C_EVENT\<close> on
  Windows and \<open>Popen.terminate\<close> (SIGTERM) elsewhere, for an in-process function
  \<open>Process.terminate\<close> on every platform.
\<close>

lemma first_stop_terminates:
  assumes "dict_get (run_processes a) run_id = Some p" and "started_child p"
    and "p_last_sigterm_time p = None"
  shows "command_stop w run_id a =
           (Inr (), a\<lparr> run_processes := dict_set run_id
              (p\<lparr> p_last_sigterm_time := Some (w_stopwatch w),
                  p_calls := p_calls p @ [(w_stopwatch w, terminate_call w p)] \<rparr>)
              (run_processes a) \<rparr>)"
    and "dict_get (run_processes (snd (command_stop w run_id a))) run_id =
           Some (p\<lparr> p_last_sigterm_time := Some (w_stopwatch w),
                    p_calls := p_calls p @ [(w_stopwatch w, terminate_call w p)] \<rparr>)"
    and "terminate_call w p =
           (if p_is_popen p
            then (if w_platform w = Windows then Popen_send_signal_CTRL_C_EVENT
                  else Popen_terminate)
            else Process_terminate)"
proof -
  have "\<not> p_gone (p\<lparr> p_last_sigterm_time := Some (w_stopwatch w) \<rparr>)"
    using assms(2) by (simp add: started_child_def)
  from terminate_started [OF this, where w = w]
  show eq: "command_stop w run_id a =
           (Inr (), a\<lparr> run_processes := dict_set run_id
              (p\<lparr> p_last_sigterm_time := Some (w_stopwatch w),
                  p_calls := p_calls p @ [(w_stopwatch w, terminate_call w p)] \<rparr>)
              (run_processes a) \<rparr>)"
    using assms(1,3) by (simp add: command_stop_def Let_def log_call_def terminate_call_def)
  show "dict_get (run_processes (snd (command_stop w run_id a))) run_id =
           Some (p\<lparr> p_last_sigterm_time := Some (w_stopwatch w),
                    p_calls := p_calls p @ [(w_stopwatch w, terminate_call w p)] \<rparr>)"
    using assms(1) by (simp add: eq dict_get_dict_set_same)
  show "terminate_call w p =
           (if p_is_popen p
            then (if w_platform w = Windows then Popen_send_signal_CTRL_C_EVENT
                  else Popen_terminate)
            else Process_terminate)"
    by (simp add: terminate_call_def)
qed

text \<open>
  If \<open>last_sigterm_time\<close> is \<open>tterm\<close> and \<open>now \<le> tterm + kill_delay\<close>, the command
  changes nothing.
\<close>

lemma stop_within_delay:
  assumes "dict_get (run_processes a) run_id = Some p"
    and "p_last_sigterm_time p = Some tterm" and "w_stopwatch w \<le> tterm + kill_delay a"
  shows "command_stop w run_id a = (Inr (), a)"
  using assms by (simp add: command_stop_def)

text \<open>
  If \<open>now > tterm + kill_delay\<close>, and the child is a subprocess or the platform is not
  Windows, the command makes one kill request (\<open>Popen.kill\<close>, or \<open>os.kill\<close> with
  SIGKILL for a function child) and leaves \<open>last_sigterm_time\<close>.
\<close>

lemma stop_after_delay_kills:
  assumes "dict_get (run_processes a) run_id = Some p" and "started_child p"
    and "p_last_sigterm_time p = Some tterm" and "tterm + kill_delay a < w_stopwatch w"
    and "p_is_popen p \<or> w_platform w \<noteq> Windows"
  shows "\<exists>c. is_kill c \<and>
           command_stop w run_id a =
             (Inr (), a\<lparr> run_processes := dict_set run_id
                (p\<lparr> p_calls := p_calls p @ [(w_stopwatch w, c)],
                    p_proc_killed := p_proc_killed p \<or> \<not> p_is_popen p \<rparr>)
                (run_processes a) \<rparr>)"
proof -
  from kill_started [OF assms(2,5)] obtain c where c: "is_kill c"
      "AgentProcess_kill w p =
       Inr ((log_call w c p)\<lparr> p_proc_killed := p_proc_killed p \<or> \<not> p_is_popen p \<rparr>)"
    by blast
  have "command_stop w run_id a =
      (Inr (), a\<lparr> run_processes := dict_set run_id
            (p\<lparr> p_calls := p_calls p @ [(w_stopwatch w, c)],
                p_proc_killed := p_proc_killed p \<or> \<not> p_is_popen p \<rparr>)
            (run_processes a) \<rparr>)"
    using assms(1,3,4) c(2) by (simp add: command_stop_def Let_def log_call_def)
  with c(1) show ?thesis by blast
qed

text \<open>
  On Windows, for a function child, the command after the delay raises
  \<open>AttributeError\<close> and the agent is as before: no kill request is made.
\<close>

lemma stop_after_delay_windows_function_child:
  assumes "dict_get (run_processes a) run_id = Some p"
    and "\<not> p_is_popen p" and "p_pid p = Some pid" and "pid \<noteq> 0"
    and "p_last_sigterm_time p = Some tterm" and "tterm + kill_delay a < w_stopwatch w"
    and "w_platform w = Windows"
  shows "command_stop w run_id a =
           (Inl signal_has_no_SIGKILL, a)"
  using assms kill_windows_function_child [OF assms(2,3,4,7)]
  by (simp add: command_stop_def Let_def is_OSError_def signal_has_no_SIGKILL_def)

text \<open>
  On every platform: after any series of stop commands on children that had received
  no request, every kill request in a child's log comes after a terminate request that
  is more than \<open>kill_delay\<close> older.
\<close>

lemma kill_never_before_terminate_and_delay:
  assumes "\<forall>kv \<in> set (run_processes a).
             p_last_sigterm_time (snd kv) = None \<and> p_calls (snd kv) = []"
  shows "\<forall>kv \<in> set (run_processes (stop_commands w cmds a)).
           \<forall>i<length (p_calls (snd kv)). is_kill (snd (p_calls (snd kv) ! i)) \<longrightarrow>
             (\<exists>j<i. is_terminate (snd (p_calls (snd kv) ! j)) \<and>
                    fst (p_calls (snd kv) ! j) + kill_delay a < fst (p_calls (snd kv) ! i))"
proof -
  from assms have "\<forall>kv \<in> set (run_processes a). stop_inv (kill_delay a) (snd kv)"
    by (simp add: stop_inv_def kill_after_terminate_def)
  then have "\<forall>kv \<in> set (run_processes (stop_commands w cmds a)).
      stop_inv (kill_delay a) (snd kv)"
    by (rule stop_inv_stop_commands)
  then show ?thesis
    by (simp add: stop_inv_def kill_after_terminate_def)
qed

text \<open>
  C5 on the code, for a child that runs an in-process function (\<open>function=\<close>) on
  Windows, with the kill delay of 30 seconds. The first stop command, at 100, sets
  \<open>last_sigterm_time\<close> to 100 and calls \<open>Process.terminate\<close> of \<open>multiprocessing\<close>:
  not the \<open>CTRL_C_EVENT\<close> of the claim, which the same command sends to a subprocess
  child. A stop command at 120 changes nothing. The stop command at 131, after the
  delay, raises \<open>AttributeError\<close> (\<open>signal.SIGKILL\<close> does not exist on Windows) and
  leaves the agent as it was: the child is not killed. After the three commands the log
  of the child holds the one request \<open>Process.terminate\<close>, and the response to the
  third command reports the exception.
\<close>

theorem stop_function_child_windows:
  "command_stop
     \<lparr> w_platform = Windows, w_time = 0, w_stopwatch = 100, w_start_time = 0,
       w_environ = (\<lambda>_. None) \<rparr> ''run1''
     \<lparr> running = True, failed = 0, finished = 0,
       run_processes = [(''run1'',
          \<lparr> p_is_popen = False, p_returncode = None, p_pid = Some 4242, p_finished_q = [],
            p_proc_killed = False, p_last_sigterm_time = None, p_gone = False,
            p_calls = [] \<rparr>)],
       last_report_time = None, kill_delay = 30, run_count = None \<rparr> =
     (Inr (), \<lparr> running = True, failed = 0, finished = 0,
       run_processes = [(''run1'',
          \<lparr> p_is_popen = False, p_returncode = None, p_pid = Some 4242, p_finished_q = [],
            p_proc_killed = False, p_last_sigterm_time = Some 100, p_gone = False,
            p_calls = [(100, Process_terminate)] \<rparr>)],
       last_report_time = None, kill_delay = 30, run_count = None \<rparr>) \<and>
   Process_terminate \<noteq> Popen_send_signal_CTRL_C_EVENT \<and>
   command_stop
     \<lparr> w_platform = Windows, w_time = 0, w_stopwatch = 100, w_start_time = 0,
       w_environ = (\<lambda>_. None) \<rparr> ''run1''
     \<lparr> running = True, failed = 0, finished = 0,
       run_processes = [(''run1'',
          \<lparr> p_is_popen = True, p_returncode = None, p_pid = None, p_finished_q = [],
            p_proc_killed = False, p_last_sigterm_time = None, p_gone = False,
            p_calls = [] \<rparr>)],
       last_report_time = None, kill_delay = 30, run_count = None \<rparr> =
     (Inr (), \<lparr> running = True, failed = 0, finished = 0,
       run_processes = [(''run1'',
          \<lparr> p_is_popen = True, p_returncode = None, p_pid = None, p_finished_q = [],
            p_proc_killed = False, p_last_sigterm_time = Some 100, p_gone = False,
            p_calls = [(100, Popen_send_signal_CTRL_C_EVENT)] \<rparr>)],
       last_report_time = None, kill_delay = 30, run_count = None \<rparr>) \<and>
   command_stop
     \<lparr> w_platform = Windows, w_time = 0, w_stopwatch = 120, w_start_time = 0,
       w_environ = (\<lambda>_. None) \<rparr> ''run1''
     \<lparr> running = True, failed = 0, finished = 0,
       run_processes = [(''run1'',
          \<lparr> p_is_popen = False, p_returncode = None, p_pid = Some 4242, p_finished_q = [],
            p_proc_killed = False, p_last_sigterm_time = Some 100, p_gone = False,
            p_calls = [(100, Process_terminate)] \<rparr>)],
       last_report_time = None, kill_delay = 30, run_count = None \<rparr> =
     (Inr (), \<lparr> running = True, failed = 0, finished = 0,
       run_processes = [(''run1'',
          \<lparr> p_is_popen = False, p_returncode = None, p_pid = Some 4242, p_finished_q = [],
            p_proc_killed = False, p_last_sigterm_time = Some 100, p_gone = False,
            p_calls = [(100, Process_terminate)] \<rparr>)],
       last_report_time = None, kill_delay = 30, run_count = None \<rparr>) \<and>
   command_stop
     \<lparr> w_platform = Windows, w_time = 0, w_stopwatch = 131, w_start_time = 0,
       w_environ = (\<lambda>_. None) \<rparr> ''run1''
     \<lparr> running = True, failed = 0, finished = 0,
       run_processes = [(''run1'',
          \<lparr> p_is_popen = False, p_returncode = None, p_pid = Some 4242, p_finished_q = [],
            p_proc_killed = False, p_last_sigterm_time = Some 100, p_gone = False,
            p_calls = [(100, Process_terminate)] \<rparr>)],
       last_report_time = None, kill_delay = 30, run_count = None \<rparr> =
     (Inl signal_has_no_SIGKILL, \<lparr> running = True, failed = 0, finished = 0,
       run_processes = [(''run1'',
          \<lparr> p_is_popen = False, p_returncode = None, p_pid = Some 4242, p_finished_q = [],
            p_proc_killed = False, p_last_sigterm_time = Some 100, p_gone = False,
            p_calls = [(100, Process_terminate)] \<rparr>)],
       last_report_time = None, kill_delay = 30, run_count = None \<rparr>) \<and>
   process_stop_command
     \<lparr> w_platform = Windows, w_time = 0, w_stopwatch = 131, w_start_time = 0,
       w_environ = (\<lambda>_. None) \<rparr> ''run1''
     \<lparr> running = True, failed = 0, finished = 0,
       run_processes = [(''run1'',
          \<lparr> p_is_popen = False, p_returncode = None, p_pid = Some 4242, p_finished_q = [],
            p_proc_killed = False, p_last_sigterm_time = Some 100, p_gone = False,
            p_calls = [(100, Process_terminate)] \<rparr>)],
       last_report_time = None, kill_delay = 30, run_count = None \<rparr> =
     (Some signal_has_no_SIGKILL, \<lparr> running = True, failed = 0, finished = 0,
       run_processes = [(''run1'',
          \<lparr> p_is_popen = False, p_returncode = None, p_pid = Some 4242, p_finished_q = [],
            p_proc_killed = False, p_last_sigterm_time = Some 100, p_gone = False,
            p_calls = [(100, Process_terminate)] \<rparr>)],
       last_report_time = None, kill_delay = 30, run_count = None \<rparr>) \<and>
   stop_commands
     \<lparr> w_platform = Windows, w_time = 0, w_stopwatch = 0, w_start_time = 0,
       w_environ = (\<lambda>_. None) \<rparr>
     [(100, ''run1''), (120, ''run1''), (131, ''run1'')]
     \<lparr> running = True, failed = 0, finished = 0,
       run_processes = [(''run1'',
          \<lparr> p_is_popen = False, p_returncode = None, p_pid = Some 4242, p_finished_q = [],
            p_proc_killed = False, p_last_sigterm_time = None, p_gone = False,
            p_calls = [] \<rparr>)],
       last_report_time = None, kill_delay = 30, run_count = None \<rparr> =
     \<lparr> running = True, failed = 0, finished = 0,
       run_processes = [(''run1'',
          \<lparr> p_is_popen = False, p_returncode = None, p_pid = Some 4242, p_finished_q = [],
            p_proc_killed = False, p_last_sigterm_time = Some 100, p_gone = False,
            p_calls = [(100, Process_terminate)] \<rparr>)],
       last_report_time = None, kill_delay = 30, run_count = None \<rparr>"
  by (simp add: command_stop_def process_stop_command_def AgentProcess_terminate_def
      AgentProcess_kill_def log_call_def dict_get_def is_OSError_def
      signal_has_no_SIGKILL_def Let_def)

section \<open>Step numbers of the rows emitted by \<open>TBHistory\<close>\<close>

lemma dict_set_not_Nil: "dict_set k v d \<noteq> []"
  by (cases d) (auto split: if_splits)

lemma dict_get_dict_set: "dict_get (dict_set k v d) k = Some v"
  by (induction d) (auto simp: dict_get_def)

lemma dict_update_acc_not_Nil: "acc \<noteq> [] \<Longrightarrow> dict_update acc d \<noteq> []"
  unfolding dict_update_def
  by (induction d arbitrary: acc) (simp_all add: dict_set_not_Nil)

lemma dict_update_Nil_iff: "dict_update [] d = [] \<longleftrightarrow> d = []"
proof (cases d)
  case Nil
  then show ?thesis by (simp add: dict_update_def)
next
  case (Cons kv d')
  have "dict_update [] (kv # d') = dict_update (dict_set (fst kv) (snd kv) []) d'"
    by (simp add: dict_update_def)
  with Cons show ?thesis
    using dict_update_acc_not_Nil [of "dict_set (fst kv) (snd kv) []" d']
    by (simp add: dict_set_not_Nil)
qed

text \<open>
  The invariant of a history from which \<open>k\<close> rows have been returned so far: the rows
  waiting in \<open>_added\<close> are non-empty and numbered \<open>k, k + 1, \<dots>\<close>, the counter is the
  number of rows emitted, and unless the in-flight map is a non-empty map that was
  already emitted, it is not among the waiting rows.
\<close>

definition history_inv :: "'a tb_history \<Rightarrow> nat \<Rightarrow> bool \<Rightarrow> bool \<Rightarrow> bool" where
  "history_inv s k nonempty emitted \<longleftrightarrow>
     h_step s = k + length (h_added s) \<and>
     (\<forall>j<length (h_added s).
        dict_get (h_store s (h_added s ! j)) ''_step'' = Some (IntV (int (k + j))) \<and>
        h_store s (h_added s ! j) \<noteq> []) \<and>
     (nonempty \<longleftrightarrow> h_store s (h_data s) \<noteq> []) \<and>
     (\<not> (nonempty \<and> emitted) \<longrightarrow> h_data s \<notin> set (h_added s)) \<and>
     h_data s < h_next s \<and>
     (\<forall>r \<in> set (h_added s). r < h_next s)"

lemma history_inv_init: "history_inv TBHistory_init 0 False False"
  by (simp add: history_inv_def TBHistory_init_def)

lemma history_inv_flush:
  assumes "history_inv s k nonempty emitted" and "\<not> (nonempty \<and> emitted)"
  shows "history_inv (TBHistory_flush s) k nonempty nonempty"
proof (cases nonempty)
  case False
  with assms show ?thesis
    by (simp add: history_inv_def TBHistory_flush_def)
next
  case True
  with assms have fresh: "h_data s \<notin> set (h_added s)"
    and ne: "h_store s (h_data s) \<noteq> []"
    by (simp_all add: history_inv_def)
  have old: "(h_added s @ [h_data s]) ! j = h_added s ! j \<and> h_added s ! j \<noteq> h_data s"
    if "j < length (h_added s)" for j
    using that fresh by (metis nth_append nth_mem)
  have rows: "dict_get (h_store (TBHistory_flush s) (h_added (TBHistory_flush s) ! j)) ''_step''
                = Some (IntV (int (k + j))) \<and>
              h_store (TBHistory_flush s) (h_added (TBHistory_flush s) ! j) \<noteq> []"
    if "j < length (h_added (TBHistory_flush s))" for j
  proof (cases "j < length (h_added s)")
    case True
    with old [OF True] assms(1) ne show ?thesis
      by (simp add: history_inv_def TBHistory_flush_def)
  next
    case False
    with that ne have "j = length (h_added s)"
      by (simp add: TBHistory_flush_def)
    with assms(1) ne show ?thesis
      by (simp add: history_inv_def TBHistory_flush_def dict_get_dict_set dict_set_not_Nil)
  qed
  have rest: "h_step (TBHistory_flush s) = k + length (h_added (TBHistory_flush s)) \<and>
              h_store (TBHistory_flush s) (h_data (TBHistory_flush s)) \<noteq> [] \<and>
              h_data (TBHistory_flush s) < h_next (TBHistory_flush s) \<and>
              (\<forall>r \<in> set (h_added (TBHistory_flush s)). r < h_next (TBHistory_flush s))"
    using assms(1) ne
    by (auto simp: history_inv_def TBHistory_flush_def dict_set_not_Nil)
  show ?thesis
    unfolding history_inv_def using rows rest True by blast
qed

lemma history_inv_add:
  assumes "history_inv s k nonempty emitted" and "\<not> (nonempty \<and> emitted)"
  shows "history_inv (TBHistory_add d s) k (d \<noteq> []) False"
proof -
  define s1 where "s1 = TBHistory_flush s"
  have inv1: "history_inv s1 k nonempty nonempty"
    unfolding s1_def using assms by (rule history_inv_flush)
  have add: "TBHistory_add d s =
      s1\<lparr> h_data := h_next s1, h_store := (h_store s1)(h_next s1 := dict_update [] d),
          h_next := h_next s1 + 1 \<rparr>"
    by (simp add: TBHistory_add_def s1_def Let_def)
  have bound: "\<forall>r \<in> set (h_added s1). r < h_next s1"
    using inv1 by (simp add: history_inv_def)
  then have other: "h_added s1 ! j \<noteq> h_next s1" if "j < length (h_added s1)" for j
    using that by (metis less_irrefl nth_mem)
  have fresh: "h_next s1 \<notin> set (h_added s1)"
    using bound by auto
  show ?thesis
    unfolding add history_inv_def
    using inv1 other fresh bound
    by (auto simp: history_inv_def dict_update_Nil_iff less_Suc_eq)
qed

lemma history_rows:
  "history_inv s k nonempty emitted \<Longrightarrow> flushed_once nonempty emitted ops \<Longrightarrow>
   steps_of (run_ops s ops) =
     map (\<lambda>i. Some (IntV (int i))) [k ..< k + length (run_ops s ops)] \<and>
   (\<forall>row \<in> set (run_ops s ops). row \<noteq> [])"
proof (induction ops arbitrary: s k nonempty emitted)
  case Nil
  then show ?case by (simp add: steps_of_def)
next
  case (Cons op ops)
  show ?case
  proof (cases op)
    case (Add d)
    with Cons.prems have ok: "\<not> (nonempty \<and> emitted)" and rest: "flushed_once (d \<noteq> []) False ops"
      by simp_all
    have "history_inv (TBHistory_add d s) k (d \<noteq> []) False"
      using Cons.prems(1) ok by (rule history_inv_add)
    from Cons.IH [OF this rest] Add show ?thesis by simp
  next
    case Flush
    with Cons.prems have ok: "\<not> (nonempty \<and> emitted)" and rest: "flushed_once nonempty nonempty ops"
      by simp_all
    have "history_inv (TBHistory_flush s) k nonempty nonempty"
      using Cons.prems(1) ok by (rule history_inv_flush)
    from Cons.IH [OF this rest] Flush show ?thesis by simp
  next
    case GetAndReset
    define n where "n = length (h_added s)"
    define s' where "s' = s\<lparr> h_added := [] \<rparr>"
    have rest: "flushed_once nonempty emitted ops"
      using Cons.prems(2) GetAndReset by simp
    have inv': "history_inv s' (k + n) nonempty emitted"
      using Cons.prems(1) by (simp add: history_inv_def s'_def n_def)
    have now: "map (\<lambda>r. dict_get r ''_step'') (map (h_store s) (h_added s)) =
               map (\<lambda>i. Some (IntV (int i))) [k ..< k + n]"
      using Cons.prems(1)
      by (intro nth_equalityI) (simp_all add: history_inv_def n_def)
    have nonempty_now: "\<forall>row \<in> set (map (h_store s) (h_added s)). row \<noteq> []"
      using Cons.prems(1) by (auto simp: history_inv_def in_set_conv_nth)
    have run: "run_ops s (op # ops) = map (h_store s) (h_added s) @ run_ops s' ops"
      using GetAndReset by (simp add: TBHistory_get_and_reset_def s'_def)
    have later: "steps_of (run_ops s' ops) =
        map (\<lambda>i. Some (IntV (int i))) [k + n ..< k + n + length (run_ops s' ops)]"
      and later_nonempty: "\<forall>row \<in> set (run_ops s' ops). row \<noteq> []"
      using Cons.IH [OF inv' rest] by simp_all
    have "[k ..< k + (n + length (run_ops s' ops))] =
          [k ..< k + n] @ [k + n ..< k + n + length (run_ops s' ops)]"
      by (metis add.assoc le_add1 upt_add_eq_append)
    then have "steps_of (run_ops s (op # ops)) =
        map (\<lambda>i. Some (IntV (int i))) [k ..< k + length (run_ops s (op # ops))]"
      using now later by (simp add: run steps_of_def n_def)
    moreover have "\<forall>row \<in> set (run_ops s (op # ops)). row \<noteq> []"
      using nonempty_now later_nonempty by (auto simp: run)
    ultimately show ?thesis by blast
  qed
qed

text \<open>
  What holds on the code. Start from a fresh \<open>TBHistory\<close> and apply any sequence of
  \<open>add\<close>, \<open>_flush\<close> and \<open>_get_and_reset\<close> in which no \<open>_flush\<close> and no
  \<open>add\<close> is applied while the in-flight map is a non-empty map that \<open>_flush\<close> has
  already emitted (\<open>flushed_once\<close>); the sequences of \<open>TBEventConsumer\<close>, which
  calls \<open>_flush\<close> once, at the end, are of this kind. Then the rows returned by
  \<open>_get_and_reset\<close>, in the order returned, carry the \<open>_step\<close> values
  \<open>0, 1, 2, \<dots>\<close> without a gap, and none of them is empty.
\<close>

lemma steps_contiguous_when_flushed_once:
  assumes "flushed_once False False ops"
  shows "steps_of (run_ops TBHistory_init ops) =
           map (\<lambda>i. Some (IntV (int i))) [0 ..< length (run_ops TBHistory_init ops)] \<and>
         (\<forall>row \<in> set (run_ops TBHistory_init ops). row \<noteq> [])"
  using history_rows [OF history_inv_init assms] by simp

lemma steps_contiguous_when_flushed_once_example:
  "flushed_once False False
     [Add [(''loss'', OtherV (1::nat))], GetAndReset, Add [], Add [(''loss'', OtherV 2)],
      Add [(''acc'', OtherV 3)], GetAndReset, Flush, GetAndReset] \<and>
   run_ops TBHistory_init
     [Add [(''loss'', OtherV (1::nat))], GetAndReset, Add [], Add [(''loss'', OtherV 2)],
      Add [(''acc'', OtherV 3)], GetAndReset, Flush, GetAndReset] =
     [[(''loss'', OtherV 1), (''_step'', IntV 0)],
      [(''loss'', OtherV 2), (''_step'', IntV 1)],
      [(''acc'', OtherV 3), (''_step'', IntV 2)]] \<and>
   steps_of (run_ops TBHistory_init
     [Add [(''loss'', OtherV (1::nat))], GetAndReset, Add [], Add [(''loss'', OtherV 2)],
      Add [(''acc'', OtherV 3)], GetAndReset, Flush, GetAndReset]) =
     [Some (IntV 0), Some (IntV 1), Some (IntV 2)]"
  using steps_contiguous_when_flushed_once
    [of "[Add [(''loss'', OtherV (1::nat))], GetAndReset, Add [], Add [(''loss'', OtherV 2)],
          Add [(''acc'', OtherV 3)], GetAndReset, Flush, GetAndReset]"]
  by (simp add: TBHistory_init_def TBHistory_add_def TBHistory_flush_def
      TBHistory_get_and_reset_def dict_update_def steps_of_def dict_get_def Let_def)

text \<open>
  C9 on the code, for the sequence \<open>add({"loss": 1})\<close>, \<open>_flush()\<close>, \<open>_flush()\<close>,
  \<open>_get_and_reset()\<close> on a fresh \<open>TBHistory\<close>. \<open>_flush\<close> appends the dict object
  held in \<open>_data\<close> and leaves it in place (only \<open>add\<close> installs a fresh dict), so
  the second \<open>_flush\<close> appends the same object again and overwrites its \<open>_step\<close>:
  \<open>_get_and_reset\<close> returns two rows, both with step 1, where the claim has the
  steps 0, 1. The same happens when \<open>add\<close> follows \<open>_flush\<close>, because \<open>add\<close>
  starts with a flush; and a row that \<open>_get_and_reset\<close> has already returned with
  step 0 is returned once more, with step 1, by a later \<open>_flush\<close>.
\<close>

theorem tbhistory_double_flush:
  "run_ops TBHistory_init
     [Add [(''loss'', OtherV (1::nat))], Flush, Flush, GetAndReset] =
     [[(''loss'', OtherV 1), (''_step'', IntV 1)],
      [(''loss'', OtherV 1), (''_step'', IntV 1)]] \<and>
   steps_of (run_ops TBHistory_init
     [Add [(''loss'', OtherV (1::nat))], Flush, Flush, GetAndReset]) =
     [Some (IntV 1), Some (IntV 1)] \<and>
   steps_of (run_ops TBHistory_init
     [Add [(''loss'', OtherV (1::nat))], Flush, Flush, GetAndReset]) \<noteq>
     map (\<lambda>i. Some (IntV (int i)))
       [0 ..< length (run_ops TBHistory_init
          [Add [(''loss'', OtherV (1::nat))], Flush, Flush, GetAndReset])] \<and>
   steps_of (run_ops TBHistory_init
     [Add [(''loss'', OtherV (1::nat))], Flush, Add [(''acc'', OtherV 2)], GetAndReset]) =
     [Some (IntV 1), Some (IntV 1)] \<and>
   run_ops TBHistory_init
     [Add [(''loss'', OtherV (1::nat))], Flush, GetAndReset, Flush, GetAndReset] =
     [[(''loss'', OtherV 1), (''_step'', IntV 0)],
      [(''loss'', OtherV 1), (''_step'', IntV 1)]]"
  by (simp add: TBHistory_init_def TBHistory_add_def TBHistory_flush_def
      TBHistory_get_and_reset_def dict_update_def steps_of_def dict_get_def Let_def
      upt_rec)

end
